theory Spec2Isabelle
  imports Main "HOL-Library.Word" "HOL-Library.Finite_Map"
begin

section \<open>Values shared by every component\<close>

text \<open>
  A Go \<^verbatim>\<open>error\<close> is a value: either one made on the spot
  (\<^verbatim>\<open>fmt.Errorf("policy not found")\<close>, or whatever a repository hands back) or one
  that wraps another (\<^verbatim>\<open>fmt.Errorf("failed to create binding: %w", err)\<close>).
  A Go result \<^verbatim>\<open>(v, err)\<close> is a pair whose second component is \<open>None\<close> for
  \<^verbatim>\<open>nil\<close>; where the source only ever returns one of the two, the pair is a sum
  with \<open>Inl\<close> for the error.
\<close>

datatype error = Err string | Wrap string error

text \<open>
  \<^verbatim>\<open>uuid.UUID\<close> is a 16-byte array; \<^verbatim>\<open>uuid.Nil\<close> is all zero.
  \<^verbatim>\<open>String()\<close> writes it as 32 lower-case hexadecimal digits grouped 8-4-4-4-12.
  Instants and durations are integers (nanoseconds). The one product of the source,
  \<^verbatim>\<open>time.Duration(cfg.TTLSeconds) * time.Second\<close>, wraps around in 64 bits; the sums
  of an instant and a duration stay far from the limits and are taken without overflow.
\<close>

type_synonym uuid = "128 word"
type_synonym time = int

definition uuid_Nil :: uuid where
  "uuid_Nil = 0"

definition hex_digit :: "nat \<Rightarrow> char" where
  "hex_digit n = ''0123456789abcdef'' ! (n mod 16)"

fun hex_of :: "nat \<Rightarrow> nat \<Rightarrow> string" where
  "hex_of 0 n = []"
| "hex_of (Suc k) n = hex_of k (n div 16) @ [hex_digit n]"

definition uuid_String :: "uuid \<Rightarrow> string" where
  "uuid_String u =
     (let h = hex_of 32 (unat u)
      in take 8 h @ ''-'' @ take 4 (drop 8 h) @ ''-'' @ take 4 (drop 12 h) @ ''-'' @
         take 4 (drop 16 h) @ ''-'' @ drop 20 h)"

section \<open>Domain model (internal/domain)\<close>

text \<open>
  The structs of the domain package, with the association fields that the repositories
  preload (\<^verbatim>\<open>Role.Permissions\<close>, \<^verbatim>\<open>Binding.Role\<close>,
  \<^verbatim>\<open>Binding.Condition\<close>, \<^verbatim>\<open>Policy.Bindings\<close>). A pointer that may be
  \<^verbatim>\<open>nil\<close> is an option. \<^verbatim>\<open>CreatedAt\<close> and \<^verbatim>\<open>UpdatedAt\<close>, and the
  back pointers \<^verbatim>\<open>Resource.Parent\<close>, \<^verbatim>\<open>Resource.Children\<close>,
  \<^verbatim>\<open>Resource.Policies\<close>, \<^verbatim>\<open>Policy.Resource\<close> and \<^verbatim>\<open>Binding.Policy\<close>
  are left out: no function of the service reads them. \<^verbatim>\<open>Binding.Members\<close> is the
  stored \<^verbatim>\<open>datatypes.JSON\<close>, a byte string. \<^verbatim>\<open>Policy.Version\<close> is a Go
  \<^verbatim>\<open>int\<close>, 64 bits wide, read as signed.
\<close>

record Permission =
  Permission_ID :: uuid
  Permission_Name :: string
  Permission_Description :: string
  Permission_Service :: string
  Permission_DeletedAt :: "time option"

record Role =
  Role_ID :: uuid
  Role_Name :: string
  Role_Title :: string
  Role_Description :: string
  Role_Permissions :: "Permission list"
  Role_IsCustom :: bool
  Role_DeletedAt :: "time option"

record Condition =
  Condition_ID :: uuid
  Condition_BindingID :: uuid
  Condition_Title :: string
  Condition_Description :: string
  Condition_Expression :: string
  Condition_DeletedAt :: "time option"

record Binding =
  Binding_ID :: uuid
  Binding_PolicyID :: uuid
  Binding_RoleID :: uuid
  Binding_Role :: "Role option"
  Binding_Members :: string
  Binding_Condition :: "Condition option"
  Binding_DeletedAt :: "time option"

record Policy =
  Policy_ID :: uuid
  Policy_ResourceID :: uuid
  Policy_Bindings :: "Binding list"
  Policy_ETag :: string
  Policy_Version :: "64 word"
  Policy_DeletedAt :: "time option"

record Resource =
  Resource_ID :: uuid
  Resource_Type :: string
  Resource_Name :: string
  Resource_ParentID :: "uuid option"
  Resource_Attributes :: "(string \<times> string) list"
  Resource_DeletedAt :: "time option"

subsection \<open>Role.HasPermission\<close>

text \<open>The loop over \<^verbatim>\<open>r.Permissions\<close> that returns at the first equal name.\<close>

fun has_permission_loop :: "Permission list \<Rightarrow> string \<Rightarrow> bool" where
  "has_permission_loop [] permissionName = False"
| "has_permission_loop (perm # perms) permissionName =
     (if Permission_Name perm = permissionName then True
      else has_permission_loop perms permissionName)"

definition HasPermission :: "Role \<Rightarrow> string \<Rightarrow> bool" where
  "HasPermission r permissionName = has_permission_loop (Role_Permissions r) permissionName"

subsection \<open>Binding.GetMembers and Binding.HasMember\<close>

text \<open>
  \<^verbatim>\<open>json.Unmarshal(b.Members, &members)\<close> belongs to Go's standard library, not to
  this repository, so the decoder is a parameter \<open>unmarshal\<close>: given the stored bytes it
  yields what it left in \<^verbatim>\<open>members\<close> and the error it returned (the decoder of the
  library itself follows below).
  \<^verbatim>\<open>GetMembers\<close> drops whatever was decoded when there is an error and returns
  \<^verbatim>\<open>(nil, err)\<close>; a nil slice is the empty list.
\<close>

type_synonym json_decoder = "string \<Rightarrow> string list \<times> error option"

definition GetMembers :: "json_decoder \<Rightarrow> Binding \<Rightarrow> string list \<times> error option" where
  "GetMembers unmarshal b =
     (case unmarshal (Binding_Members b) of
        (members, Some err) \<Rightarrow> ([], Some err)
      | (members, None) \<Rightarrow> (members, None))"

fun has_member_loop :: "string list \<Rightarrow> string \<Rightarrow> bool" where
  "has_member_loop [] principal' = False"
| "has_member_loop (member # members) principal' =
     (if member = principal' then True else has_member_loop members principal')"

definition HasMember :: "json_decoder \<Rightarrow> Binding \<Rightarrow> string \<Rightarrow> bool" where
  "HasMember unmarshal b principal' =
     (case GetMembers unmarshal b of
        (members, Some err) \<Rightarrow> False
      | (members, None) \<Rightarrow> has_member_loop members principal')"

subsection \<open>json.Unmarshal into a slice of strings\<close>

text \<open>
  What \<^verbatim>\<open>json.Unmarshal(data, &members)\<close> of \<^verbatim>\<open>encoding/json\<close> does when
  \<^verbatim>\<open>members\<close> is a nil \<^verbatim>\<open>[]string\<close>, written from the documentation of that
  package. The input must be one JSON value with nothing but white space around it.
  \<^item> An array is decoded element by element. A string element is unquoted: the escapes
    are replaced, a \<^verbatim>\<open>u\<close> escape (a backslash, \<^verbatim>\<open>u\<close> and four
    hexadecimal digits) by the UTF-8 encoding of its code point (two such escapes that
    form a surrogate pair by the encoding of the pair's code point, a lone surrogate by
    that of U+FFFD), and a byte that does not start a well-formed UTF-8
    sequence by the encoding of U+FFFD. A \<^verbatim>\<open>null\<close> element has no effect, so the
    element keeps the zero value, the empty string. Any other element is an error.
  \<^item> \<^verbatim>\<open>null\<close> leaves the slice nil and is no error.
  \<^item> Any other value, and any text that is not JSON, is an error.
  The message of the error says where decoding stopped and is not modelled: every error is
  \<open>json_error\<close>. \<^verbatim>\<open>GetMembers\<close> discards what was decoded before an error.
\<close>

definition is_space :: "char \<Rightarrow> bool" where
  "is_space c \<longleftrightarrow> c = CHR '' '' \<or> c = CHR 0x09 \<or> c = CHR 0x0A \<or> c = CHR 0x0D"

definition skip_space :: "string \<Rightarrow> string" where
  "skip_space s = dropWhile is_space s"

definition hex_value :: "char \<Rightarrow> nat option" where
  "hex_value c =
     (let n = of_char c :: nat
      in if 48 \<le> n \<and> n \<le> 57 then Some (n - 48)
         else if 97 \<le> n \<and> n \<le> 102 then Some (n - 87)
         else if 65 \<le> n \<and> n \<le> 70 then Some (n - 55)
         else None)"

text \<open>\<^verbatim>\<open>getu4\<close>: the code point of a \<^verbatim>\<open>u\<close> escape at the head, if there is one.\<close>

definition getu4 :: "string \<Rightarrow> nat option" where
  "getu4 s =
     (case s of
        b # u # h1 # h2 # h3 # h4 # rest \<Rightarrow>
          if b = CHR 0x5C \<and> u = CHR ''u''
          then (case (hex_value h1, hex_value h2, hex_value h3, hex_value h4) of
                  (Some d1, Some d2, Some d3, Some d4) \<Rightarrow>
                    Some (((d1 * 16 + d2) * 16 + d3) * 16 + d4)
                | _ \<Rightarrow> None)
          else None
      | _ \<Rightarrow> None)"

definition utf8_EncodeRune :: "nat \<Rightarrow> string" where
  "utf8_EncodeRune r =
     (if r < 0x80 then [char_of r]
      else if r < 0x800 then [char_of (0xC0 + r div 64), char_of (0x80 + r mod 64)]
      else if (0xD800 \<le> r \<and> r < 0xE000) \<or> 0x10FFFF < r then [CHR 0xEF, CHR 0xBF, CHR 0xBD]
      else if r < 0x10000
      then [char_of (0xE0 + r div 4096), char_of (0x80 + r div 64 mod 64),
            char_of (0x80 + r mod 64)]
      else [char_of (0xF0 + r div 262144), char_of (0x80 + r div 4096 mod 64),
            char_of (0x80 + r div 64 mod 64), char_of (0x80 + r mod 64)])"

text \<open>
  \<^verbatim>\<open>utf16.DecodeRune\<close>: the code point of a surrogate pair, \<open>None\<close> where the
  source returns U+FFFD (the second argument is \<open>None\<close> when no escape follows).
\<close>

definition utf16_DecodeRune :: "nat \<Rightarrow> nat option \<Rightarrow> nat option" where
  "utf16_DecodeRune r1 r2 =
     (case r2 of
        None \<Rightarrow> None
      | Some r2 \<Rightarrow>
          if 0xD800 \<le> r1 \<and> r1 < 0xDC00 \<and> 0xDC00 \<le> r2 \<and> r2 < 0xE000
          then Some ((r1 - 0xD800) * 1024 + (r2 - 0xDC00) + 0x10000)
          else None)"

definition byte_at :: "string \<Rightarrow> nat \<Rightarrow> nat" where
  "byte_at s i = (if i < length s then of_char (s ! i) else 0)"

text \<open>
  The length of the well-formed UTF-8 sequence of two to four bytes at the head of the
  input, 0 when there is none (\<^verbatim>\<open>utf8.DecodeRune\<close> then returns U+FFFD and width 1).
\<close>

definition utf8_size :: "string \<Rightarrow> nat" where
  "utf8_size s =
     (let b0 = byte_at s 0; b1 = byte_at s 1; b2 = byte_at s 2; b3 = byte_at s 3;
          cont = (\<lambda>b. 0x80 \<le> b \<and> b \<le> (0xBF :: nat))
      in if 0xC2 \<le> b0 \<and> b0 \<le> 0xDF then (if cont b1 then 2 else 0)
         else if b0 = 0xE0 then (if 0xA0 \<le> b1 \<and> b1 \<le> 0xBF \<and> cont b2 then 3 else 0)
         else if (0xE1 \<le> b0 \<and> b0 \<le> 0xEC) \<or> b0 = 0xEE \<or> b0 = 0xEF
         then (if cont b1 \<and> cont b2 then 3 else 0)
         else if b0 = 0xED then (if 0x80 \<le> b1 \<and> b1 \<le> 0x9F \<and> cont b2 then 3 else 0)
         else if b0 = 0xF0
         then (if 0x90 \<le> b1 \<and> b1 \<le> 0xBF \<and> cont b2 \<and> cont b3 then 4 else 0)
         else if 0xF1 \<le> b0 \<and> b0 \<le> 0xF3 then (if cont b1 \<and> cont b2 \<and> cont b3 then 4 else 0)
         else if b0 = 0xF4
         then (if 0x80 \<le> b1 \<and> b1 \<le> 0x8F \<and> cont b2 \<and> cont b3 then 4 else 0)
         else 0)"

definition simple_escape :: "char \<Rightarrow> char option" where
  "simple_escape c =
     (if c = CHR 0x22 \<or> c = CHR 0x5C \<or> c = CHR ''/'' then Some c
      else if c = CHR ''b'' then Some (CHR 0x08)
      else if c = CHR ''f'' then Some (CHR 0x0C)
      else if c = CHR ''n'' then Some (CHR 0x0A)
      else if c = CHR ''r'' then Some (CHR 0x0D)
      else if c = CHR ''t'' then Some (CHR 0x09)
      else None)"

text \<open>
  \<open>unquote acc cs\<close> reads a string literal whose opening quote has been read: it returns
  the decoded bytes (after \<open>acc\<close>) and the input after the closing quote, or \<open>None\<close>
  when the literal is not valid (no closing quote, a control character, a bad escape).
\<close>

function unquote :: "string \<Rightarrow> string \<Rightarrow> (string \<times> string) option" where
  "unquote acc cs =
     (case cs of
        [] \<Rightarrow> None
      | c # rest \<Rightarrow>
          if c = CHR 0x22 then Some (acc, rest)
          else if c = CHR 0x5C
          then (case rest of
                  [] \<Rightarrow> None
                | e # rest1 \<Rightarrow>
                    if e = CHR ''u''
                    then (case getu4 cs of
                            None \<Rightarrow> None
                          | Some rr \<Rightarrow>
                              if 0xD800 \<le> rr \<and> rr < 0xE000
                              then (case utf16_DecodeRune rr (getu4 (drop 6 cs)) of
                                      Some dec \<Rightarrow> unquote (acc @ utf8_EncodeRune dec) (drop 12 cs)
                                    | None \<Rightarrow> unquote (acc @ utf8_EncodeRune 0xFFFD) (drop 6 cs))
                              else unquote (acc @ utf8_EncodeRune rr) (drop 6 cs))
                    else (case simple_escape e of
                            None \<Rightarrow> None
                          | Some d \<Rightarrow> unquote (acc @ [d]) rest1))
          else if (of_char c :: nat) < 0x20 then None
          else if (of_char c :: nat) < 0x80 then unquote (acc @ [c]) rest
          else if utf8_size cs = 0 then unquote (acc @ utf8_EncodeRune 0xFFFD) rest
          else unquote (acc @ take (utf8_size cs) cs) (drop (utf8_size cs) cs))"
  by pat_completeness auto
termination
  by (relation "measure (\<lambda>(acc, cs). length cs)") auto

declare unquote.simps [simp del]

text \<open>An element of the array: a string (\<open>Some\<close> of its bytes) or \<^verbatim>\<open>null\<close> (\<open>None\<close>).\<close>

definition parse_element :: "string \<Rightarrow> (string option \<times> string) option" where
  "parse_element cs =
     (case cs of
        [] \<Rightarrow> None
      | c # rest \<Rightarrow>
          if c = CHR 0x22 then map_option (\<lambda>(s, r). (Some s, r)) (unquote [] rest)
          else if take 4 cs = ''null'' then Some (None, drop 4 cs)
          else None)"

function parse_elements ::
  "string option list \<Rightarrow> string \<Rightarrow> (string option list \<times> string) option" where
  "parse_elements acc cs =
     (case parse_element cs of
        None \<Rightarrow> None
      | Some (e, rest) \<Rightarrow>
          (case skip_space rest of
             [] \<Rightarrow> None
           | c # rest1 \<Rightarrow>
               if c = CHR '','' then parse_elements (acc @ [e]) (skip_space rest1)
               else if c = CHR '']'' then Some (acc @ [e], rest1)
               else None))"
  by pat_completeness auto
termination
proof (relation "measure (\<lambda>(acc, cs). length cs)")
  show "wf (measure (\<lambda>(acc, cs). length cs))" by simp
next
  fix acc :: "string option list" and cs x2 e rest x21 and rest1 :: string and c
  assume pe: "parse_element cs = Some x2" and x2: "(e, rest) = x2"
    and sk: "skip_space rest = c # rest1"
  have shorter: "length s \<le> n \<Longrightarrow> unquote a s = Some (d, r) \<Longrightarrow> length r < length s"
    for n s a d r
  proof (induction n arbitrary: s a)
    case 0
    then show ?case by (simp add: unquote.simps)
  next
    case (Suc n)
    from Suc.prems show ?case
      apply (subst (asm) unquote.simps)
      apply (auto split: if_splits list.splits option.splits dest!: Suc.IH [rotated])
      done
  qed
  from pe x2 have "length rest < length cs"
    by (auto simp: parse_element_def split: list.splits if_splits dest: shorter [OF order_refl])
  moreover have "length (skip_space rest) \<le> length rest"
    by (simp add: skip_space_def length_dropWhile_le)
  moreover have "length (skip_space rest1) \<le> length rest1"
    by (simp add: skip_space_def length_dropWhile_le)
  ultimately show "((acc @ [e], skip_space rest1), (acc, cs)) \<in> measure (\<lambda>(acc, cs). length cs)"
    using sk by simp
qed

declare parse_elements.simps [simp del]

text \<open>
  The elements of a JSON array of strings and \<^verbatim>\<open>null\<close>s that fills the whole input;
  \<open>None\<close> for any other input.
\<close>

definition parse_array :: "string \<Rightarrow> string option list option" where
  "parse_array bytes =
     (case skip_space bytes of
        [] \<Rightarrow> None
      | c # rest \<Rightarrow>
          if c \<noteq> CHR ''['' then None
          else (case (case skip_space rest of
                        [] \<Rightarrow> None
                      | d # rest1 \<Rightarrow>
                          if d = CHR '']'' then Some ([], rest1)
                          else parse_elements [] (d # rest1)) of
                  None \<Rightarrow> None
                | Some (elements, rest2) \<Rightarrow>
                    if skip_space rest2 = [] then Some elements else None))"

definition json_null :: "string \<Rightarrow> bool" where
  "json_null bytes \<longleftrightarrow>
     take 4 (skip_space bytes) = ''null'' \<and> skip_space (drop 4 (skip_space bytes)) = []"

definition json_error :: error where
  "json_error = Err ''json: cannot unmarshal into Go value of type []string''"

definition json_Unmarshal_strings :: json_decoder where
  "json_Unmarshal_strings bytes =
     (if json_null bytes then ([], None)
      else case parse_array bytes of
             None \<Rightarrow> ([], Some json_error)
           | Some elements \<Rightarrow>
               (map (\<lambda>e. case e of None \<Rightarrow> [] | Some s \<Rightarrow> s) elements, None))"

text \<open>
  A well-formed JSON string array, in the words of the specification: a JSON array every
  element of which is a string.
\<close>

definition json_string_array :: "string \<Rightarrow> bool" where
  "json_string_array bytes \<longleftrightarrow>
     (case parse_array bytes of
        None \<Rightarrow> False
      | Some elements \<Rightarrow> list_all (\<lambda>e. e \<noteq> None) elements)"

subsection \<open>The gorm hooks\<close>

text \<open>
  \<^verbatim>\<open>uuid.New()\<close> draws a random identifier. The hooks take the drawn values as
  arguments: every \<^verbatim>\<open>BeforeCreate\<close> uses one for the ID when the ID is
  \<^verbatim>\<open>uuid.Nil\<close>, \<^verbatim>\<open>Policy.BeforeCreate\<close> another for the ETag when that is
  empty, and \<^verbatim>\<open>Policy.BeforeUpdate\<close> always uses one. \<^verbatim>\<open>p.Version++\<close> is
  machine addition.
\<close>

definition Permission_BeforeCreate :: "uuid \<Rightarrow> Permission \<Rightarrow> Permission" where
  "Permission_BeforeCreate u p = (if Permission_ID p = uuid_Nil then p\<lparr>Permission_ID := u\<rparr> else p)"

definition Role_BeforeCreate :: "uuid \<Rightarrow> Role \<Rightarrow> Role" where
  "Role_BeforeCreate u r = (if Role_ID r = uuid_Nil then r\<lparr>Role_ID := u\<rparr> else r)"

definition Resource_BeforeCreate :: "uuid \<Rightarrow> Resource \<Rightarrow> Resource" where
  "Resource_BeforeCreate u r = (if Resource_ID r = uuid_Nil then r\<lparr>Resource_ID := u\<rparr> else r)"

definition Condition_BeforeCreate :: "uuid \<Rightarrow> Condition \<Rightarrow> Condition" where
  "Condition_BeforeCreate u c = (if Condition_ID c = uuid_Nil then c\<lparr>Condition_ID := u\<rparr> else c)"

definition Binding_BeforeCreate :: "uuid \<Rightarrow> Binding \<Rightarrow> Binding" where
  "Binding_BeforeCreate u b = (if Binding_ID b = uuid_Nil then b\<lparr>Binding_ID := u\<rparr> else b)"

definition Policy_BeforeCreate :: "uuid \<Rightarrow> uuid \<Rightarrow> Policy \<Rightarrow> Policy" where
  "Policy_BeforeCreate u1 u2 p =
     (let p1 = (if Policy_ID p = uuid_Nil then p\<lparr>Policy_ID := u1\<rparr> else p)
      in if Policy_ETag p1 = [] then p1\<lparr>Policy_ETag := uuid_String u2\<rparr> else p1)"

definition Policy_BeforeUpdate :: "uuid \<Rightarrow> Policy \<Rightarrow> Policy" where
  "Policy_BeforeUpdate u p =
     p\<lparr>Policy_ETag := uuid_String u, Policy_Version := Policy_Version p + 1\<rparr>"

section \<open>Decision cache (internal/service/cache_service.go, cache_noop.go)\<close>

text \<open>
  \<^verbatim>\<open>GenerateCacheKey\<close> is \<^verbatim>\<open>fmt.Sprintf("perm:%s:%s:%s", ...)\<close>.
\<close>

definition GenerateCacheKey :: "string \<Rightarrow> string \<Rightarrow> string \<Rightarrow> string" where
  "GenerateCacheKey principal' resourceID permission =
     ''perm:'' @ principal' @ '':'' @ resourceID @ '':'' @ permission"

text \<open>
  The in-memory cache. \<^verbatim>\<open>data\<close> is a Go map, so it is finite and its length is
  the number of keys. The only values the service ever stores are booleans (the
  evaluator's \<^verbatim>\<open>Set(cacheKey, true)\<close>), so the stored \<^verbatim>\<open>interface{}\<close> is a
  type parameter. \<^verbatim>\<open>time.Now()\<close> is the argument \<open>now\<close> of every operation that
  reads the clock (\<^verbatim>\<open>Set\<close> reads it for the sweep and again for the expiration of the
  new entry; the two readings are taken as one instant). The mutex is not modelled: each operation runs as a whole. The
  background sweeper of \<^verbatim>\<open>cleanup\<close> does nothing but call \<^verbatim>\<open>evictExpired\<close> at
  intervals.
\<close>

record CacheConfig =
  Enabled :: bool
  TTLSeconds :: int
  MaxSize :: int
  CleanupMinutes :: int

record 'v cacheEntry =
  entry_value :: 'v
  expiration :: time

record 'v cacheService =
  cfg :: CacheConfig
  data :: "(string, 'v cacheEntry) fmap"
  enabled :: bool
  ttl :: int

definition NewCacheService :: "CacheConfig \<Rightarrow> 'v cacheService" where
  "NewCacheService c =
     \<lparr>cfg = c, data = fmempty, enabled = Enabled c,
      ttl = sint ((word_of_int (TTLSeconds c) :: 64 word) * 1000000000)\<rparr>"

definition len :: "(string, 'v) fmap \<Rightarrow> int" where
  "len m = int (fcard (fmdom m))"

definition cacheService_Get :: "time \<Rightarrow> 'v cacheService \<Rightarrow> string \<Rightarrow> 'v option" where
  "cacheService_Get now c key =
     (if \<not> enabled c then None
      else case fmlookup (data c) key of
             None \<Rightarrow> None
           | Some entry \<Rightarrow> if now > expiration entry then None else Some (entry_value entry))"

text \<open>\<^verbatim>\<open>evictExpired\<close> deletes every key whose entry lies strictly before \<open>now\<close>.\<close>

definition evictExpired :: "time \<Rightarrow> 'v cacheService \<Rightarrow> 'v cacheService" where
  "evictExpired now c =
     c\<lparr>data := fmfilter (\<lambda>key. case fmlookup (data c) key of
                                   None \<Rightarrow> False
                                 | Some entry \<Rightarrow> \<not> now > expiration entry) (data c)\<rparr>"

definition cacheService_Set :: "time \<Rightarrow> 'v cacheService \<Rightarrow> string \<Rightarrow> 'v \<Rightarrow> 'v cacheService" where
  "cacheService_Set now c key v =
     (if \<not> enabled c then c
      else
        let c1 = (if len (data c) \<ge> MaxSize (cfg c)
                  then (let c2 = evictExpired now c
                        in if len (data c2) \<ge> MaxSize (cfg c2) then c2\<lparr>data := fmempty\<rparr>
                           else c2)
                  else c)
        in c1\<lparr>data := fmupd key \<lparr>entry_value = v, expiration = now + ttl c1\<rparr> (data c1)\<rparr>)"

definition cacheService_Delete :: "'v cacheService \<Rightarrow> string \<Rightarrow> 'v cacheService" where
  "cacheService_Delete c key = (if \<not> enabled c then c else c\<lparr>data := fmdrop key (data c)\<rparr>)"

definition cacheService_Clear :: "'v cacheService \<Rightarrow> 'v cacheService" where
  "cacheService_Clear c = c\<lparr>data := fmempty\<rparr>"

text \<open>
  The \<^verbatim>\<open>CacheService\<close> interface, as a record of operations over some cache state
  \<open>'c\<close>. The three constructors of the source give three instances; the Redis one keeps
  its entries in a server outside the repository and is not modelled.
\<close>

record 'c CacheService =
  Get :: "'c \<Rightarrow> string \<Rightarrow> bool option"
  Set :: "'c \<Rightarrow> string \<Rightarrow> bool \<Rightarrow> 'c"
  Delete :: "'c \<Rightarrow> string \<Rightarrow> 'c"
  Clear :: "'c \<Rightarrow> 'c"

definition NewNoopCache :: "unit CacheService" where
  "NewNoopCache =
     \<lparr>Get = (\<lambda>c key. None), Set = (\<lambda>c key v. c), Delete = (\<lambda>c key. c), Clear = (\<lambda>c. c)\<rparr>"

definition memoryCache :: "time \<Rightarrow> (bool cacheService) CacheService" where
  "memoryCache now =
     \<lparr>Get = cacheService_Get now, Set = cacheService_Set now,
      Delete = cacheService_Delete, Clear = cacheService_Clear\<rparr>"

section \<open>Repository contracts (internal/repository)\<close>

text \<open>
  The evaluator and the service are written against the repository interfaces, and the
  tests run them on mocks. An interface is a record of its methods over a store state
  \<open>'s\<close>; only the methods that the modelled functions call are listed. A query takes
  the store and returns the Go pair \<^verbatim>\<open>(value, err)\<close>. A method that writes also
  returns the new store, and, since it receives a pointer, the struct as the call left it
  (\<^verbatim>\<open>BeforeCreate\<close> fills in the ID, for instance).
\<close>

record 's ResourceRepository =
  ResourceRepo_Create :: "'s \<Rightarrow> Resource \<Rightarrow> (Resource \<times> error option) \<times> 's"
  ResourceRepo_GetByID :: "'s \<Rightarrow> uuid \<Rightarrow> Resource option \<times> error option"
  ResourceRepo_Update :: "'s \<Rightarrow> Resource \<Rightarrow> (Resource \<times> error option) \<times> 's"
  ResourceRepo_Delete :: "'s \<Rightarrow> uuid \<Rightarrow> error option \<times> 's"
  ResourceRepo_GetAncestors :: "'s \<Rightarrow> uuid \<Rightarrow> Resource list \<times> error option"

record 's PermissionRepository =
  PermissionRepo_Create :: "'s \<Rightarrow> Permission \<Rightarrow> (Permission \<times> error option) \<times> 's"
  PermissionRepo_GetByIDs :: "'s \<Rightarrow> uuid list \<Rightarrow> Permission list \<times> error option"

record 's RoleRepository =
  RoleRepo_Create :: "'s \<Rightarrow> Role \<Rightarrow> (Role \<times> error option) \<times> 's"
  RoleRepo_GetByID :: "'s \<Rightarrow> uuid \<Rightarrow> Role option \<times> error option"
  RoleRepo_Update :: "'s \<Rightarrow> Role \<Rightarrow> (Role \<times> error option) \<times> 's"
  RoleRepo_Delete :: "'s \<Rightarrow> uuid \<Rightarrow> error option \<times> 's"

record 's PolicyRepository =
  PolicyRepo_Create :: "'s \<Rightarrow> Policy \<Rightarrow> (Policy \<times> error option) \<times> 's"
  PolicyRepo_GetByID :: "'s \<Rightarrow> uuid \<Rightarrow> Policy option \<times> error option"
  PolicyRepo_GetByResourceID :: "'s \<Rightarrow> uuid \<Rightarrow> Policy option \<times> error option"
  PolicyRepo_Update :: "'s \<Rightarrow> Policy \<Rightarrow> (Policy \<times> error option) \<times> 's"
  PolicyRepo_Delete :: "'s \<Rightarrow> uuid \<Rightarrow> error option \<times> 's"

record 's BindingRepository =
  BindingRepo_Create :: "'s \<Rightarrow> Binding \<Rightarrow> (Binding \<times> error option) \<times> 's"
  BindingRepo_GetByID :: "'s \<Rightarrow> uuid \<Rightarrow> Binding option \<times> error option"
  BindingRepo_Delete :: "'s \<Rightarrow> uuid \<Rightarrow> error option \<times> 's"

section \<open>Permission evaluator (internal/service/permission_evaluator.go)\<close>

text \<open>
  The struct \<^verbatim>\<open>permissionEvaluator\<close>. Its field \<^verbatim>\<open>permissionRepo\<close> is never
  used by a method and is left out; \<open>json_Unmarshal\<close> is the JSON decoder that
  \<^verbatim>\<open>Binding.HasMember\<close> needs. The request context is a Go
  \<^verbatim>\<open>map[string]string\<close>. The cache holds booleans only (the evaluator is the one
  component that writes to it), so the type assertion \<^verbatim>\<open>cached.(bool)\<close> cannot
  fail.
\<close>

record ('s, 'c) permissionEvaluator =
  resourceRepo :: "'s ResourceRepository"
  policyRepo :: "'s PolicyRepository"
  cache :: "'c CacheService"
  json_Unmarshal :: json_decoder

type_synonym request_context = "string \<rightharpoonup> string"
type_synonym decision = "bool \<times> string \<times> error option"

text \<open>
  \<^verbatim>\<open>evaluateCondition\<close>: both branches of the source return \<^verbatim>\<open>true\<close>.
\<close>

definition evaluateCondition :: "Condition option \<Rightarrow> request_context \<Rightarrow> bool" where
  "evaluateCondition condition ctx =
     (if condition = None \<or> Condition_Expression (the condition) = [] then True else True)"

text \<open>The loop of \<^verbatim>\<open>checkResourcePermission\<close> over \<^verbatim>\<open>policy.Bindings\<close>.\<close>

fun check_bindings ::
  "json_decoder \<Rightarrow> string \<Rightarrow> uuid \<Rightarrow> string \<Rightarrow> request_context \<Rightarrow> Binding list \<Rightarrow> decision" where
  "check_bindings um principal' resourceID permission ctx [] =
     (False, ''No matching binding found'', None)"
| "check_bindings um principal' resourceID permission ctx (binding # bindings) =
     (if \<not> HasMember um binding principal'
      then check_bindings um principal' resourceID permission ctx bindings
      else if Binding_Condition binding \<noteq> None \<and>
              \<not> evaluateCondition (Binding_Condition binding) ctx
      then check_bindings um principal' resourceID permission ctx bindings
      else case Binding_Role binding of
             None \<Rightarrow> check_bindings um principal' resourceID permission ctx bindings
           | Some role \<Rightarrow>
               if HasPermission role permission
               then (True, ''Permission granted via role '' @ [CHR 0x27] @ Role_Name role @
                           [CHR 0x27] @ '' on resource '' @ [CHR 0x27] @
                           uuid_String resourceID @ [CHR 0x27], None)
               else check_bindings um principal' resourceID permission ctx bindings)"

definition checkResourcePermission ::
  "('s, 'c) permissionEvaluator \<Rightarrow> 's \<Rightarrow> string \<Rightarrow> uuid \<Rightarrow> string \<Rightarrow> request_context \<Rightarrow> decision" where
  "checkResourcePermission pe s principal' resourceID permission ctx =
     (case PolicyRepo_GetByResourceID (policyRepo pe) s resourceID of
        (policy, Some err) \<Rightarrow> (False, ''Error fetching policy'', Some err)
      | (None, None) \<Rightarrow> (False, ''No policy found for resource'', None)
      | (Some policy, None) \<Rightarrow>
          check_bindings (json_Unmarshal pe) principal' resourceID permission ctx
            (Policy_Bindings policy))"

text \<open>
  The loop of \<^verbatim>\<open>CheckPermission\<close> over the resource and its ancestors. It returns
  the decision and the cache as the call leaves it.
\<close>

fun check_hierarchy ::
  "('s, 'c) permissionEvaluator \<Rightarrow> 's \<Rightarrow> string \<Rightarrow> string \<Rightarrow> string \<Rightarrow> request_context \<Rightarrow>
     uuid list \<Rightarrow> 'c \<Rightarrow> decision \<times> 'c" where
  "check_hierarchy pe s cacheKey principal' permission ctx [] c =
     ((False, ''Permission denied: no matching policy found'', None), c)"
| "check_hierarchy pe s cacheKey principal' permission ctx (resID # resources) c =
     (case checkResourcePermission pe s principal' resID permission ctx of
        (allowed, reason, Some err) \<Rightarrow> ((False, reason, Some err), c)
      | (True, reason, None) \<Rightarrow> ((True, reason, None), Set (cache pe) c cacheKey True)
      | (False, reason, None) \<Rightarrow>
          check_hierarchy pe s cacheKey principal' permission ctx resources c)"

definition CheckPermission ::
  "('s, 'c) permissionEvaluator \<Rightarrow> string \<Rightarrow> uuid \<Rightarrow> string \<Rightarrow> request_context \<Rightarrow> 's \<Rightarrow> 'c \<Rightarrow>
     decision \<times> 'c" where
  "CheckPermission pe principal' resourceID permission ctx s c =
     (let cacheKey = GenerateCacheKey principal' (uuid_String resourceID) permission
      in if Get (cache pe) c cacheKey = Some True
         then ((True, ''Permission granted (cached)'', None), c)
         else
           case ResourceRepo_GetByID (resourceRepo pe) s resourceID of
             (resource, Some err) \<Rightarrow> ((False, ''Error fetching resource'', Some err), c)
           | (None, None) \<Rightarrow> ((False, ''Resource not found'', None), c)
           | (Some resource, None) \<Rightarrow>
               (case ResourceRepo_GetAncestors (resourceRepo pe) s resourceID of
                  (ancestors, Some err) \<Rightarrow>
                    ((False, ''Error fetching resource ancestors'', Some err), c)
                | (ancestors, None) \<Rightarrow>
                    check_hierarchy pe s cacheKey principal' permission ctx
                      (resourceID # map Resource_ID ancestors) c))"

text \<open>
  A policy repository that hands out the policies of another one with the condition of
  every binding removed. It serves to say that conditions never change a decision.
\<close>

definition without_conditions :: "'s PolicyRepository \<Rightarrow> 's PolicyRepository" where
  "without_conditions repo =
     repo\<lparr>PolicyRepo_GetByResourceID :=
       (\<lambda>s resourceID.
          case PolicyRepo_GetByResourceID repo s resourceID of
            (policy, err) \<Rightarrow>
              (map_option
                 (\<lambda>p. p\<lparr>Policy_Bindings :=
                          map (\<lambda>b. b\<lparr>Binding_Condition := None\<rparr>) (Policy_Bindings p)\<rparr>)
                 policy, err))\<rparr>"

text \<open>
  \<^verbatim>\<open>GetEffectivePermissions\<close>. The two Go maps used as sets are lists of keys
  without repetition; the source returns the keys in the order of a map iteration, which
  it does not fix, so nothing here depends on the order. A \<^verbatim>\<open>nil\<close> slice is the
  empty list.
\<close>

definition set_key :: "string list \<Rightarrow> string \<Rightarrow> string list" where
  "set_key keys k = (if k \<in> set keys then keys else keys @ [k])"

fun effective_bindings ::
  "json_decoder \<Rightarrow> string \<Rightarrow> Binding list \<Rightarrow> string list \<times> string list \<Rightarrow>
     string list \<times> string list" where
  "effective_bindings um principal' [] (permissions, roles) = (permissions, roles)"
| "effective_bindings um principal' (binding # bindings) (permissions, roles) =
     (if \<not> HasMember um binding principal'
      then effective_bindings um principal' bindings (permissions, roles)
      else case Binding_Role binding of
             None \<Rightarrow> effective_bindings um principal' bindings (permissions, roles)
           | Some role \<Rightarrow>
               effective_bindings um principal' bindings
                 (foldl set_key permissions (map Permission_Name (Role_Permissions role)),
                  set_key roles (Role_Name role)))"

fun effective_hierarchy ::
  "('s, 'c) permissionEvaluator \<Rightarrow> 's \<Rightarrow> string \<Rightarrow> uuid list \<Rightarrow> string list \<times> string list \<Rightarrow>
     string list \<times> string list" where
  "effective_hierarchy pe s principal' [] acc = acc"
| "effective_hierarchy pe s principal' (resID # resources) acc =
     (case PolicyRepo_GetByResourceID (policyRepo pe) s resID of
        (policy, Some err) \<Rightarrow> effective_hierarchy pe s principal' resources acc
      | (None, None) \<Rightarrow> effective_hierarchy pe s principal' resources acc
      | (Some policy, None) \<Rightarrow>
          effective_hierarchy pe s principal' resources
            (effective_bindings (json_Unmarshal pe) principal' (Policy_Bindings policy) acc))"

definition GetEffectivePermissions ::
  "('s, 'c) permissionEvaluator \<Rightarrow> string \<Rightarrow> uuid \<Rightarrow> 's \<Rightarrow>
     string list \<times> string list \<times> error option" where
  "GetEffectivePermissions pe principal' resourceID s =
     (case ResourceRepo_GetByID (resourceRepo pe) s resourceID of
        (resource, Some err) \<Rightarrow> ([], [], Some err)
      | (None, None) \<Rightarrow> ([], [], Some (Err ''resource not found''))
      | (Some resource, None) \<Rightarrow>
          (case ResourceRepo_GetAncestors (resourceRepo pe) s resourceID of
             (ancestors, Some err) \<Rightarrow> ([], [], Some err)
           | (ancestors, None) \<Rightarrow>
               (case effective_hierarchy pe s principal'
                       (resourceID # map Resource_ID ancestors) ([], []) of
                  (permissions, roles) \<Rightarrow> (permissions, roles, None))))"

section \<open>IAM service (internal/service/iam_service.go)\<close>

text \<open>
  The struct \<^verbatim>\<open>IAMService\<close>. \<open>json_Marshal\<close> is the standard library's
  \<^verbatim>\<open>json.Marshal\<close> on a \<^verbatim>\<open>[]string\<close>, a parameter like the decoder. A
  method runs on the pair of the store and the cache and returns its Go results with the
  pair as the call leaves it. \<open>Wrap m e\<close> is \<^verbatim>\<open>fmt.Errorf(m + ": %w", e)\<close>.
\<close>

record ('s, 'c) IAMService =
  iam_resourceRepo :: "'s ResourceRepository"
  iam_permissionRepo :: "'s PermissionRepository"
  iam_roleRepo :: "'s RoleRepository"
  iam_policyRepo :: "'s PolicyRepository"
  iam_bindingRepo :: "'s BindingRepository"
  iam_evaluator :: "('s, 'c) permissionEvaluator"
  iam_cache :: "'c CacheService"
  json_Marshal :: "string list \<Rightarrow> string \<times> error option"

definition IAMService_CheckPermission ::
  "('s, 'c) IAMService \<Rightarrow> string \<Rightarrow> uuid \<Rightarrow> string \<Rightarrow> request_context \<Rightarrow> 's \<times> 'c \<Rightarrow>
     decision \<times> ('s \<times> 'c)" where
  "IAMService_CheckPermission svc principal' resourceID permission ctx st =
     (case CheckPermission (iam_evaluator svc) principal' resourceID permission ctx
             (fst st) (snd st) of
        (d, c') \<Rightarrow> (d, (fst st, c')))"

subsection \<open>Resources\<close>

definition CreateResource ::
  "('s, 'c) IAMService \<Rightarrow> string \<Rightarrow> string \<Rightarrow> uuid option \<Rightarrow> (string \<times> string) list \<Rightarrow> 's \<times> 'c \<Rightarrow>
     (Resource option \<times> error option) \<times> ('s \<times> 'c)" where
  "CreateResource svc resourceType name parentID attributes st =
     (let resource = \<lparr>Resource_ID = uuid_Nil, Resource_Type = resourceType, Resource_Name = name,
                        Resource_ParentID = parentID, Resource_Attributes = attributes,
                        Resource_DeletedAt = None\<rparr>
      in case ResourceRepo_Create (iam_resourceRepo svc) (fst st) resource of
           ((resource1, Some err), s1) \<Rightarrow>
             ((None, Some (Wrap ''failed to create resource'' err)), (s1, snd st))
         | ((resource1, None), s1) \<Rightarrow> ((Some resource1, None), (s1, snd st)))"

definition UpdateResource ::
  "('s, 'c) IAMService \<Rightarrow> uuid \<Rightarrow> string \<Rightarrow> (string \<times> string) list \<Rightarrow> 's \<times> 'c \<Rightarrow>
     (Resource option \<times> error option) \<times> ('s \<times> 'c)" where
  "UpdateResource svc id' name attributes st =
     (case ResourceRepo_GetByID (iam_resourceRepo svc) (fst st) id' of
        (resource, Some err) \<Rightarrow> ((None, Some err), st)
      | (None, None) \<Rightarrow> ((None, Some (Err ''resource not found'')), st)
      | (Some resource, None) \<Rightarrow>
          (case ResourceRepo_Update (iam_resourceRepo svc) (fst st)
                  (resource\<lparr>Resource_Name := name, Resource_Attributes := attributes\<rparr>) of
             ((resource1, Some err), s1) \<Rightarrow>
               ((None, Some (Wrap ''failed to update resource'' err)), (s1, snd st))
           | ((resource1, None), s1) \<Rightarrow> ((Some resource1, None), (s1, snd st))))"

definition DeleteResource ::
  "('s, 'c) IAMService \<Rightarrow> uuid \<Rightarrow> 's \<times> 'c \<Rightarrow> error option \<times> ('s \<times> 'c)" where
  "DeleteResource svc id' st =
     (case ResourceRepo_Delete (iam_resourceRepo svc) (fst st) id' of
        (err, s1) \<Rightarrow> (err, (s1, snd st)))"

subsection \<open>Permissions and roles\<close>

definition CreatePermission ::
  "('s, 'c) IAMService \<Rightarrow> string \<Rightarrow> string \<Rightarrow> string \<Rightarrow> 's \<times> 'c \<Rightarrow>
     (Permission option \<times> error option) \<times> ('s \<times> 'c)" where
  "CreatePermission svc name description service st =
     (let permission = \<lparr>Permission_ID = uuid_Nil, Permission_Name = name,
                          Permission_Description = description, Permission_Service = service,
                          Permission_DeletedAt = None\<rparr>
      in case PermissionRepo_Create (iam_permissionRepo svc) (fst st) permission of
           ((permission1, Some err), s1) \<Rightarrow>
             ((None, Some (Wrap ''failed to create permission'' err)), (s1, snd st))
         | ((permission1, None), s1) \<Rightarrow> ((Some permission1, None), (s1, snd st)))"

definition CreateRole ::
  "('s, 'c) IAMService \<Rightarrow> string \<Rightarrow> string \<Rightarrow> string \<Rightarrow> uuid list \<Rightarrow> 's \<times> 'c \<Rightarrow>
     (Role option \<times> error option) \<times> ('s \<times> 'c)" where
  "CreateRole svc name title description permissionIDs st =
     (case PermissionRepo_GetByIDs (iam_permissionRepo svc) (fst st) permissionIDs of
        (perms, Some err) \<Rightarrow> ((None, Some (Wrap ''failed to get permissions'' err)), st)
      | (perms, None) \<Rightarrow>
          (let role = \<lparr>Role_ID = uuid_Nil, Role_Name = name, Role_Title = title,
                         Role_Description = description, Role_Permissions = perms,
                         Role_IsCustom = True, Role_DeletedAt = None\<rparr>
           in case RoleRepo_Create (iam_roleRepo svc) (fst st) role of
                ((role1, Some err), s1) \<Rightarrow>
                  ((None, Some (Wrap ''failed to create role'' err)), (s1, snd st))
              | ((role1, None), s1) \<Rightarrow> ((Some role1, None), (s1, snd st))))"

definition UpdateRole ::
  "('s, 'c) IAMService \<Rightarrow> uuid \<Rightarrow> string \<Rightarrow> string \<Rightarrow> uuid list \<Rightarrow> 's \<times> 'c \<Rightarrow>
     (Role option \<times> error option) \<times> ('s \<times> 'c)" where
  "UpdateRole svc id' title description permissionIDs st =
     (case RoleRepo_GetByID (iam_roleRepo svc) (fst st) id' of
        (role, Some err) \<Rightarrow> ((None, Some err), st)
      | (None, None) \<Rightarrow> ((None, Some (Err ''role not found'')), st)
      | (Some role, None) \<Rightarrow>
          (case PermissionRepo_GetByIDs (iam_permissionRepo svc) (fst st) permissionIDs of
             (perms, Some err) \<Rightarrow> ((None, Some (Wrap ''failed to get permissions'' err)), st)
           | (perms, None) \<Rightarrow>
               (case RoleRepo_Update (iam_roleRepo svc) (fst st)
                       (role\<lparr>Role_Title := title, Role_Description := description,
                             Role_Permissions := perms\<rparr>) of
                  ((role1, Some err), s1) \<Rightarrow>
                    ((None, Some (Wrap ''failed to update role'' err)), (s1, snd st))
                | ((role1, None), s1) \<Rightarrow> ((Some role1, None), (s1, snd st)))))"

definition DeleteRole ::
  "('s, 'c) IAMService \<Rightarrow> uuid \<Rightarrow> 's \<times> 'c \<Rightarrow> error option \<times> ('s \<times> 'c)" where
  "DeleteRole svc id' st =
     (case RoleRepo_Delete (iam_roleRepo svc) (fst st) id' of
        (err, s1) \<Rightarrow> (err, (s1, snd st)))"

subsection \<open>Policies\<close>

text \<open>
  The two loops over bindings. \<^verbatim>\<open>bindings[i].PolicyID = policy.ID\<close> and the
  repository's \<^verbatim>\<open>Create\<close> write into the caller's slice; the loops return only the
  error and the store, which is all that the methods use afterwards.
\<close>

fun create_bindings :: "'s BindingRepository \<Rightarrow> uuid \<Rightarrow> Binding list \<Rightarrow> 's \<Rightarrow> error option \<times> 's" where
  "create_bindings repo policyID [] s = (None, s)"
| "create_bindings repo policyID (binding # bindings) s =
     (case BindingRepo_Create repo s (binding\<lparr>Binding_PolicyID := policyID\<rparr>) of
        ((binding1, Some err), s1) \<Rightarrow> (Some (Wrap ''failed to create binding'' err), s1)
      | ((binding1, None), s1) \<Rightarrow> create_bindings repo policyID bindings s1)"

fun delete_bindings :: "'s BindingRepository \<Rightarrow> Binding list \<Rightarrow> 's \<Rightarrow> error option \<times> 's" where
  "delete_bindings repo [] s = (None, s)"
| "delete_bindings repo (binding # bindings) s =
     (case BindingRepo_Delete repo s (Binding_ID binding) of
        (Some err, s1) \<Rightarrow> (Some (Wrap ''failed to delete binding'' err), s1)
      | (None, s1) \<Rightarrow> delete_bindings repo bindings s1)"

definition CreatePolicy ::
  "('s, 'c) IAMService \<Rightarrow> uuid \<Rightarrow> Binding list \<Rightarrow> 's \<times> 'c \<Rightarrow>
     (Policy option \<times> error option) \<times> ('s \<times> 'c)" where
  "CreatePolicy svc resourceID bindings st =
     (let policy = \<lparr>Policy_ID = uuid_Nil, Policy_ResourceID = resourceID, Policy_Bindings = [],
                      Policy_ETag = [], Policy_Version = 1, Policy_DeletedAt = None\<rparr>
      in case PolicyRepo_Create (iam_policyRepo svc) (fst st) policy of
           ((policy1, Some err), s1) \<Rightarrow>
             ((None, Some (Wrap ''failed to create policy'' err)), (s1, snd st))
         | ((policy1, None), s1) \<Rightarrow>
             (case create_bindings (iam_bindingRepo svc) (Policy_ID policy1) bindings s1 of
                (Some err, s2) \<Rightarrow> ((None, Some err), (s2, snd st))
              | (None, s2) \<Rightarrow>
                  (PolicyRepo_GetByID (iam_policyRepo svc) s2 (Policy_ID policy1),
                   (s2, Clear (iam_cache svc) (snd st)))))"

definition UpdatePolicy ::
  "('s, 'c) IAMService \<Rightarrow> uuid \<Rightarrow> Binding list \<Rightarrow> string \<Rightarrow> 's \<times> 'c \<Rightarrow>
     (Policy option \<times> error option) \<times> ('s \<times> 'c)" where
  "UpdatePolicy svc resourceID bindings etag st =
     (case PolicyRepo_GetByResourceID (iam_policyRepo svc) (fst st) resourceID of
        (policy, Some err) \<Rightarrow> ((None, Some err), st)
      | (None, None) \<Rightarrow> ((None, Some (Err ''policy not found'')), st)
      | (Some policy, None) \<Rightarrow>
          if Policy_ETag policy \<noteq> etag
          then ((None, Some (Err ''policy has been modified, etag mismatch'')), st)
          else
            (case delete_bindings (iam_bindingRepo svc) (Policy_Bindings policy) (fst st) of
               (Some err, s1) \<Rightarrow> ((None, Some err), (s1, snd st))
             | (None, s1) \<Rightarrow>
                 (case create_bindings (iam_bindingRepo svc) (Policy_ID policy) bindings s1 of
                    (Some err, s2) \<Rightarrow> ((None, Some err), (s2, snd st))
                  | (None, s2) \<Rightarrow>
                      (case PolicyRepo_Update (iam_policyRepo svc) s2 policy of
                         ((policy1, Some err), s3) \<Rightarrow>
                           ((None, Some (Wrap ''failed to update policy'' err)), (s3, snd st))
                       | ((policy1, None), s3) \<Rightarrow>
                           (PolicyRepo_GetByID (iam_policyRepo svc) s3 (Policy_ID policy1),
                            (s3, Clear (iam_cache svc) (snd st)))))))"

definition DeletePolicy ::
  "('s, 'c) IAMService \<Rightarrow> uuid \<Rightarrow> string \<Rightarrow> 's \<times> 'c \<Rightarrow> error option \<times> ('s \<times> 'c)" where
  "DeletePolicy svc resourceID etag st =
     (case PolicyRepo_GetByResourceID (iam_policyRepo svc) (fst st) resourceID of
        (policy, Some err) \<Rightarrow> (Some err, st)
      | (None, None) \<Rightarrow> (Some (Err ''policy not found''), st)
      | (Some policy, None) \<Rightarrow>
          if Policy_ETag policy \<noteq> etag
          then (Some (Err ''policy has been modified, etag mismatch''), st)
          else (case PolicyRepo_Delete (iam_policyRepo svc) (fst st) (Policy_ID policy) of
                  (err, s1) \<Rightarrow> (err, (s1, Clear (iam_cache svc) (snd st)))))"

subsection \<open>Bindings\<close>

text \<open>
  \<^verbatim>\<open>CreateBinding\<close> writes \<^verbatim>\<open>condition.BindingID\<close> into the caller's struct
  and does nothing else with it; the third component of the result is the condition as
  the call leaves it.
\<close>

definition CreateBinding ::
  "('s, 'c) IAMService \<Rightarrow> uuid \<Rightarrow> uuid \<Rightarrow> string list \<Rightarrow> Condition option \<Rightarrow> 's \<times> 'c \<Rightarrow>
     (Binding option \<times> error option \<times> Condition option) \<times> ('s \<times> 'c)" where
  "CreateBinding svc resourceID roleID members condition st =
     (case PolicyRepo_GetByResourceID (iam_policyRepo svc) (fst st) resourceID of
        (found, Some err) \<Rightarrow> ((None, Some err, condition), st)
      | (found, None) \<Rightarrow>
          (case (case found of
                   Some policy \<Rightarrow> ((policy, None), fst st)
                 | None \<Rightarrow>
                     PolicyRepo_Create (iam_policyRepo svc) (fst st)
                       \<lparr>Policy_ID = uuid_Nil, Policy_ResourceID = resourceID,
                        Policy_Bindings = [], Policy_ETag = [], Policy_Version = 1,
                        Policy_DeletedAt = None\<rparr>) of
             ((policy, Some err), s1) \<Rightarrow>
               ((None, Some (Wrap ''failed to create policy'' err), condition), (s1, snd st))
           | ((policy, None), s1) \<Rightarrow>
               (case json_Marshal svc members of
                  (membersJSON, Some err) \<Rightarrow>
                    ((None, Some (Wrap ''failed to marshal members'' err), condition),
                     (s1, snd st))
                | (membersJSON, None) \<Rightarrow>
                    (case BindingRepo_Create (iam_bindingRepo svc) s1
                            \<lparr>Binding_ID = uuid_Nil, Binding_PolicyID = Policy_ID policy,
                             Binding_RoleID = roleID, Binding_Role = None,
                             Binding_Members = membersJSON, Binding_Condition = None,
                             Binding_DeletedAt = None\<rparr> of
                       ((binding, Some err), s2) \<Rightarrow>
                         ((None, Some (Wrap ''failed to create binding'' err), condition),
                          (s2, snd st))
                     | ((binding, None), s2) \<Rightarrow>
                         (case BindingRepo_GetByID (iam_bindingRepo svc) s2 (Binding_ID binding) of
                            (loaded, err) \<Rightarrow>
                              ((loaded, err,
                                map_option (\<lambda>cond. cond\<lparr>Condition_BindingID := Binding_ID binding\<rparr>)
                                  condition),
                               (s2, Clear (iam_cache svc) (snd st))))))))"

definition DeleteBinding ::
  "('s, 'c) IAMService \<Rightarrow> uuid \<Rightarrow> 's \<times> 'c \<Rightarrow> error option \<times> ('s \<times> 'c)" where
  "DeleteBinding svc id' st =
     (case BindingRepo_Delete (iam_bindingRepo svc) (fst st) id' of
        (err, s1) \<Rightarrow> (err, (s1, Clear (iam_cache svc) (snd st))))"

section \<open>The repositories over a store (internal/repository)\<close>

text \<open>
  The repository implementations are thin wrappers around gorm calls on a PostgreSQL
  database. The store below is what those calls see: one list of rows per table, the
  primary key being the \<^verbatim>\<open>ID\<close> column. In a row the association fields are
  empty; \<^verbatim>\<open>Preload\<close> fills them in. What is taken from gorm and the schema tags:
  \<^item> \<^verbatim>\<open>First\<close>, \<^verbatim>\<open>Find\<close> and \<^verbatim>\<open>Preload\<close> skip rows whose
    \<^verbatim>\<open>deleted_at\<close> is set; raw SQL does not, unless it says so;
  \<^item> \<^verbatim>\<open>Delete\<close> on a model with a \<^verbatim>\<open>DeletedAt\<close> field sets
    \<^verbatim>\<open>deleted_at\<close> on the live rows with that ID, and is not an error when there
    are none;
  \<^item> \<^verbatim>\<open>Create\<close> runs \<^verbatim>\<open>BeforeCreate\<close> and inserts; the insert fails when the
    primary key or a \<^verbatim>\<open>uniqueIndex\<close> column is already taken (deleted rows still
    count); a \<^verbatim>\<open>Condition\<close> carried by a binding is saved with it;
  \<^item> \<^verbatim>\<open>Save\<close> runs \<^verbatim>\<open>BeforeUpdate\<close> and writes the columns of the row with
    that ID, inserting the row when there is none; rows of associated tables that exist
    already are left as they are, and a role's permissions are added to the join table;
  \<^item> \<^verbatim>\<open>uuid.New()\<close> takes the next value of \<open>entropy\<close>;
  \<^item> when the connection is broken (\<open>db_error\<close>), every call fails with that error.
  Not modelled: the checks of foreign keys, of \<^verbatim>\<open>NOT NULL\<close> columns and of the
  syntax of \<^verbatim>\<open>jsonb\<close> columns, which make an insert fail; and the conversion between
  the \<^verbatim>\<open>attributes\<close> column and the map of a \<^verbatim>\<open>Resource\<close>, so a row is read back
  with the attributes it was written with.
\<close>

record DB =
  resources :: "Resource list"
  permissions :: "Permission list"
  roles :: "Role list"
  role_permissions :: "(uuid \<times> uuid) list"
  policies :: "Policy list"
  bindings :: "Binding list"
  conditions :: "Condition list"
  entropy :: "nat \<Rightarrow> uuid"
  drawn :: nat
  db_now :: time
  db_error :: "error option"

definition uuid_New :: "DB \<Rightarrow> uuid \<times> DB" where
  "uuid_New db = (entropy db (drawn db), db\<lparr>drawn := Suc (drawn db)\<rparr>)"

definition duplicate_key :: error where
  "duplicate_key = Err ''duplicate key value violates unique constraint''"

subsection \<open>Preloading\<close>

definition load_permissions :: "DB \<Rightarrow> uuid \<Rightarrow> Permission list" where
  "load_permissions db roleID =
     filter (\<lambda>p. Permission_DeletedAt p = None \<and>
                  (roleID, Permission_ID p) \<in> set (role_permissions db)) (permissions db)"

definition load_role :: "DB \<Rightarrow> uuid \<Rightarrow> Role option" where
  "load_role db roleID =
     map_option (\<lambda>r. r\<lparr>Role_Permissions := load_permissions db (Role_ID r)\<rparr>)
       (find (\<lambda>r. Role_ID r = roleID \<and> Role_DeletedAt r = None) (roles db))"

definition load_condition :: "DB \<Rightarrow> uuid \<Rightarrow> Condition option" where
  "load_condition db bindingID =
     find (\<lambda>c. Condition_BindingID c = bindingID \<and> Condition_DeletedAt c = None) (conditions db)"

definition load_binding :: "DB \<Rightarrow> Binding \<Rightarrow> Binding" where
  "load_binding db b =
     b\<lparr>Binding_Role := load_role db (Binding_RoleID b),
       Binding_Condition := load_condition db (Binding_ID b)\<rparr>"

definition load_policy :: "DB \<Rightarrow> Policy \<Rightarrow> Policy" where
  "load_policy db p =
     p\<lparr>Policy_Bindings :=
         map (load_binding db)
           (filter (\<lambda>b. Binding_PolicyID b = Policy_ID p \<and> Binding_DeletedAt b = None)
              (bindings db))\<rparr>"

subsection \<open>resourceRepository\<close>

definition resourceRepository_Create :: "DB \<Rightarrow> Resource \<Rightarrow> (Resource \<times> error option) \<times> DB" where
  "resourceRepository_Create db resource =
     (case db_error db of
        Some err \<Rightarrow> ((resource, Some err), db)
      | None \<Rightarrow>
          (let drawn1 = (if Resource_ID resource = uuid_Nil then uuid_New db else (uuid_Nil, db));
               r1 = Resource_BeforeCreate (fst drawn1) resource;
               db1 = snd drawn1
           in if Resource_ID r1 \<in> Resource_ID ` set (resources db1)
              then ((r1, Some duplicate_key), db1)
              else ((r1, None), db1\<lparr>resources := resources db1 @ [r1]\<rparr>)))"

definition resourceRepository_GetByID :: "DB \<Rightarrow> uuid \<Rightarrow> Resource option \<times> error option" where
  "resourceRepository_GetByID db id' =
     (case db_error db of
        Some err \<Rightarrow> (None, Some err)
      | None \<Rightarrow>
          (find (\<lambda>r. Resource_ID r = id' \<and> Resource_DeletedAt r = None) (resources db), None))"

definition resourceRepository_Update :: "DB \<Rightarrow> Resource \<Rightarrow> (Resource \<times> error option) \<times> DB" where
  "resourceRepository_Update db resource =
     (case db_error db of
        Some err \<Rightarrow> ((resource, Some err), db)
      | None \<Rightarrow>
          ((resource, None),
           db\<lparr>resources :=
                (if Resource_ID resource \<in> Resource_ID ` set (resources db)
                 then map (\<lambda>r. if Resource_ID r = Resource_ID resource then resource else r)
                        (resources db)
                 else resources db @ [resource])\<rparr>))"

definition resourceRepository_Delete :: "DB \<Rightarrow> uuid \<Rightarrow> error option \<times> DB" where
  "resourceRepository_Delete db id' =
     (case db_error db of
        Some err \<Rightarrow> (Some err, db)
      | None \<Rightarrow>
          (None,
           db\<lparr>resources :=
                map (\<lambda>r. if Resource_ID r = id' \<and> Resource_DeletedAt r = None
                          then r\<lparr>Resource_DeletedAt := Some (db_now db)\<rparr> else r)
                  (resources db)\<rparr>))"

text \<open>
  \<^verbatim>\<open>GetAncestors\<close> runs a recursive query: it starts from the row with the given
  id (deleted or not) and joins, step after step, the live row whose id is the
  \<^verbatim>\<open>parent_id\<close> of the row found last; at the end it drops the rows whose id is the
  given one. \<open>cte_ancestors\<close> is the recursive part, with a bound on its steps. A chain
  of live rows with distinct ids has at most as many steps as the table has rows, so
  \<open>GetAncestors\<close> starts it with one more than that; when the steps run out the
  parent pointers go round in a circle, the query never yields its rows, and the
  embedding reports a failed lookup.
\<close>

fun cte_ancestors :: "nat \<Rightarrow> Resource list \<Rightarrow> Resource \<Rightarrow> Resource list option" where
  "cte_ancestors 0 rows a = None"
| "cte_ancestors (Suc n) rows a =
     (case Resource_ParentID a of
        None \<Rightarrow> Some []
      | Some parentID \<Rightarrow>
          (case find (\<lambda>r. Resource_ID r = parentID \<and> Resource_DeletedAt r = None) rows of
             None \<Rightarrow> Some []
           | Some r \<Rightarrow> map_option ((#) r) (cte_ancestors n rows r)))"

definition resourceRepository_GetAncestors :: "DB \<Rightarrow> uuid \<Rightarrow> Resource list \<times> error option" where
  "resourceRepository_GetAncestors db id' =
     (case db_error db of
        Some err \<Rightarrow> ([], Some err)
      | None \<Rightarrow>
          (case find (\<lambda>r. Resource_ID r = id') (resources db) of
             None \<Rightarrow> ([], None)
           | Some start \<Rightarrow>
               (case cte_ancestors (Suc (length (resources db))) (resources db) start of
                  None \<Rightarrow> ([], Some (Err ''recursive query does not terminate''))
                | Some ancestors \<Rightarrow> (filter (\<lambda>r. Resource_ID r \<noteq> id') ancestors, None))))"

definition resourceRepository :: "DB ResourceRepository" where
  "resourceRepository =
     \<lparr>ResourceRepo_Create = resourceRepository_Create,
      ResourceRepo_GetByID = resourceRepository_GetByID,
      ResourceRepo_Update = resourceRepository_Update,
      ResourceRepo_Delete = resourceRepository_Delete,
      ResourceRepo_GetAncestors = resourceRepository_GetAncestors\<rparr>"

subsection \<open>permissionRepository and roleRepository\<close>

definition permissionRepository_Create ::
  "DB \<Rightarrow> Permission \<Rightarrow> (Permission \<times> error option) \<times> DB" where
  "permissionRepository_Create db permission =
     (case db_error db of
        Some err \<Rightarrow> ((permission, Some err), db)
      | None \<Rightarrow>
          (let drawn1 = (if Permission_ID permission = uuid_Nil then uuid_New db
                         else (uuid_Nil, db));
               p1 = Permission_BeforeCreate (fst drawn1) permission;
               db1 = snd drawn1
           in if Permission_ID p1 \<in> Permission_ID ` set (permissions db1) \<or>
                 Permission_Name p1 \<in> Permission_Name ` set (permissions db1)
              then ((p1, Some duplicate_key), db1)
              else ((p1, None), db1\<lparr>permissions := permissions db1 @ [p1]\<rparr>)))"

definition permissionRepository_GetByIDs :: "DB \<Rightarrow> uuid list \<Rightarrow> Permission list \<times> error option" where
  "permissionRepository_GetByIDs db ids =
     (case db_error db of
        Some err \<Rightarrow> ([], Some err)
      | None \<Rightarrow>
          (filter (\<lambda>p. Permission_ID p \<in> set ids \<and> Permission_DeletedAt p = None)
             (permissions db), None))"

definition permissionRepository :: "DB PermissionRepository" where
  "permissionRepository =
     \<lparr>PermissionRepo_Create = permissionRepository_Create,
      PermissionRepo_GetByIDs = permissionRepository_GetByIDs\<rparr>"

definition add_role_permissions :: "uuid \<Rightarrow> Permission list \<Rightarrow> (uuid \<times> uuid) list \<Rightarrow> (uuid \<times> uuid) list" where
  "add_role_permissions roleID perms joins =
     joins @ filter (\<lambda>j. j \<notin> set joins) (remdups (map (\<lambda>p. (roleID, Permission_ID p)) perms))"

definition roleRepository_Create :: "DB \<Rightarrow> Role \<Rightarrow> (Role \<times> error option) \<times> DB" where
  "roleRepository_Create db role =
     (case db_error db of
        Some err \<Rightarrow> ((role, Some err), db)
      | None \<Rightarrow>
          (let drawn1 = (if Role_ID role = uuid_Nil then uuid_New db else (uuid_Nil, db));
               r1 = Role_BeforeCreate (fst drawn1) role;
               db1 = snd drawn1
           in if Role_ID r1 \<in> Role_ID ` set (roles db1) \<or>
                 Role_Name r1 \<in> Role_Name ` set (roles db1)
              then ((r1, Some duplicate_key), db1)
              else ((r1, None),
                    db1\<lparr>roles := roles db1 @ [r1\<lparr>Role_Permissions := []\<rparr>],
                        role_permissions :=
                          add_role_permissions (Role_ID r1) (Role_Permissions r1)
                            (role_permissions db1)\<rparr>)))"

definition roleRepository_GetByID :: "DB \<Rightarrow> uuid \<Rightarrow> Role option \<times> error option" where
  "roleRepository_GetByID db id' =
     (case db_error db of
        Some err \<Rightarrow> (None, Some err)
      | None \<Rightarrow> (load_role db id', None))"

definition roleRepository_Update :: "DB \<Rightarrow> Role \<Rightarrow> (Role \<times> error option) \<times> DB" where
  "roleRepository_Update db role =
     (case db_error db of
        Some err \<Rightarrow> ((role, Some err), db)
      | None \<Rightarrow>
          ((role, None),
           db\<lparr>roles :=
                (if Role_ID role \<in> Role_ID ` set (roles db)
                 then map (\<lambda>r. if Role_ID r = Role_ID role then role\<lparr>Role_Permissions := []\<rparr> else r)
                        (roles db)
                 else roles db @ [role\<lparr>Role_Permissions := []\<rparr>]),
               role_permissions :=
                 add_role_permissions (Role_ID role) (Role_Permissions role)
                   (role_permissions db)\<rparr>))"

definition roleRepository_Delete :: "DB \<Rightarrow> uuid \<Rightarrow> error option \<times> DB" where
  "roleRepository_Delete db id' =
     (case db_error db of
        Some err \<Rightarrow> (Some err, db)
      | None \<Rightarrow>
          (None,
           db\<lparr>roles :=
                map (\<lambda>r. if Role_ID r = id' \<and> Role_DeletedAt r = None
                          then r\<lparr>Role_DeletedAt := Some (db_now db)\<rparr> else r)
                  (roles db)\<rparr>))"

definition roleRepository :: "DB RoleRepository" where
  "roleRepository =
     \<lparr>RoleRepo_Create = roleRepository_Create, RoleRepo_GetByID = roleRepository_GetByID,
      RoleRepo_Update = roleRepository_Update, RoleRepo_Delete = roleRepository_Delete\<rparr>"

subsection \<open>policyRepository\<close>

text \<open>
  \<^verbatim>\<open>Create\<close> runs \<^verbatim>\<open>Policy.BeforeCreate\<close>, which draws an identifier for the ID
  when it is \<^verbatim>\<open>uuid.Nil\<close> and another for the ETag when it is empty.
  \<^verbatim>\<open>resource_id\<close> carries a unique index. \<^verbatim>\<open>Update\<close> is \<^verbatim>\<open>Save\<close>, so
  \<^verbatim>\<open>Policy.BeforeUpdate\<close> runs first.
\<close>

definition policy_before_create :: "DB \<Rightarrow> Policy \<Rightarrow> Policy \<times> DB" where
  "policy_before_create db p =
     (let r1 = (if Policy_ID p = uuid_Nil then uuid_New db else (uuid_Nil, db));
          r2 = (if Policy_ETag p = [] then uuid_New (snd r1) else (uuid_Nil, snd r1))
      in (Policy_BeforeCreate (fst r1) (fst r2) p, snd r2))"

definition policyRepository_Create :: "DB \<Rightarrow> Policy \<Rightarrow> (Policy \<times> error option) \<times> DB" where
  "policyRepository_Create db policy =
     (case db_error db of
        Some err \<Rightarrow> ((policy, Some err), db)
      | None \<Rightarrow>
          (case policy_before_create db policy of
             (p1, db1) \<Rightarrow>
               if Policy_ID p1 \<in> Policy_ID ` set (policies db1) \<or>
                  Policy_ResourceID p1 \<in> Policy_ResourceID ` set (policies db1)
               then ((p1, Some duplicate_key), db1)
               else ((p1, None), db1\<lparr>policies := policies db1 @ [p1\<lparr>Policy_Bindings := []\<rparr>]\<rparr>)))"

definition policyRepository_GetByID :: "DB \<Rightarrow> uuid \<Rightarrow> Policy option \<times> error option" where
  "policyRepository_GetByID db id' =
     (case db_error db of
        Some err \<Rightarrow> (None, Some err)
      | None \<Rightarrow>
          (map_option (load_policy db)
             (find (\<lambda>p. Policy_ID p = id' \<and> Policy_DeletedAt p = None) (policies db)), None))"

definition policyRepository_GetByResourceID :: "DB \<Rightarrow> uuid \<Rightarrow> Policy option \<times> error option" where
  "policyRepository_GetByResourceID db resourceID =
     (case db_error db of
        Some err \<Rightarrow> (None, Some err)
      | None \<Rightarrow>
          (map_option (load_policy db)
             (find (\<lambda>p. Policy_ResourceID p = resourceID \<and> Policy_DeletedAt p = None)
                (policies db)), None))"

definition policyRepository_Update :: "DB \<Rightarrow> Policy \<Rightarrow> (Policy \<times> error option) \<times> DB" where
  "policyRepository_Update db policy =
     (case db_error db of
        Some err \<Rightarrow> ((policy, Some err), db)
      | None \<Rightarrow>
          (case uuid_New db of
             (u, db1) \<Rightarrow>
               (let p1 = Policy_BeforeUpdate u policy
                in ((p1, None),
                    db1\<lparr>policies :=
                          (if Policy_ID p1 \<in> Policy_ID ` set (policies db1)
                           then map (\<lambda>p. if Policy_ID p = Policy_ID p1
                                          then p1\<lparr>Policy_Bindings := []\<rparr> else p)
                                  (policies db1)
                           else policies db1 @ [p1\<lparr>Policy_Bindings := []\<rparr>])\<rparr>))))"

definition policyRepository_Delete :: "DB \<Rightarrow> uuid \<Rightarrow> error option \<times> DB" where
  "policyRepository_Delete db id' =
     (case db_error db of
        Some err \<Rightarrow> (Some err, db)
      | None \<Rightarrow>
          (None,
           db\<lparr>policies :=
                map (\<lambda>p. if Policy_ID p = id' \<and> Policy_DeletedAt p = None
                          then p\<lparr>Policy_DeletedAt := Some (db_now db)\<rparr> else p)
                  (policies db)\<rparr>))"

definition policyRepository :: "DB PolicyRepository" where
  "policyRepository =
     \<lparr>PolicyRepo_Create = policyRepository_Create, PolicyRepo_GetByID = policyRepository_GetByID,
      PolicyRepo_GetByResourceID = policyRepository_GetByResourceID,
      PolicyRepo_Update = policyRepository_Update, PolicyRepo_Delete = policyRepository_Delete\<rparr>"

subsection \<open>bindingRepository\<close>

text \<open>
  \<^verbatim>\<open>Create\<close> inserts the binding row and then saves the \<^verbatim>\<open>Condition\<close> that the
  binding carries, if any, under the binding's id (a condition row that exists already
  is left alone).
\<close>

definition save_condition :: "DB \<Rightarrow> uuid \<Rightarrow> Condition \<Rightarrow> Condition \<times> DB" where
  "save_condition db bindingID cond =
     (let drawn1 = (if Condition_ID cond = uuid_Nil then uuid_New db else (uuid_Nil, db));
          c1 = Condition_BeforeCreate (fst drawn1) (cond\<lparr>Condition_BindingID := bindingID\<rparr>);
          db1 = snd drawn1
      in (c1, if Condition_ID c1 \<in> Condition_ID ` set (conditions db1) then db1
              else db1\<lparr>conditions := conditions db1 @ [c1]\<rparr>))"

definition bindingRepository_Create :: "DB \<Rightarrow> Binding \<Rightarrow> (Binding \<times> error option) \<times> DB" where
  "bindingRepository_Create db binding =
     (case db_error db of
        Some err \<Rightarrow> ((binding, Some err), db)
      | None \<Rightarrow>
          (let drawn1 = (if Binding_ID binding = uuid_Nil then uuid_New db else (uuid_Nil, db));
               b1 = Binding_BeforeCreate (fst drawn1) binding;
               db1 = snd drawn1
           in if Binding_ID b1 \<in> Binding_ID ` set (bindings db1)
              then ((b1, Some duplicate_key), db1)
              else
                (let db2 = db1\<lparr>bindings := bindings db1 @
                               [b1\<lparr>Binding_Role := None, Binding_Condition := None\<rparr>]\<rparr>
                 in case Binding_Condition b1 of
                      None \<Rightarrow> ((b1, None), db2)
                    | Some cond \<Rightarrow>
                        (let saved = save_condition db2 (Binding_ID b1) cond
                         in ((b1\<lparr>Binding_Condition := Some (fst saved)\<rparr>, None),
                             snd saved)))))"

definition bindingRepository_GetByID :: "DB \<Rightarrow> uuid \<Rightarrow> Binding option \<times> error option" where
  "bindingRepository_GetByID db id' =
     (case db_error db of
        Some err \<Rightarrow> (None, Some err)
      | None \<Rightarrow>
          (map_option (load_binding db)
             (find (\<lambda>b. Binding_ID b = id' \<and> Binding_DeletedAt b = None) (bindings db)), None))"

definition bindingRepository_Delete :: "DB \<Rightarrow> uuid \<Rightarrow> error option \<times> DB" where
  "bindingRepository_Delete db id' =
     (case db_error db of
        Some err \<Rightarrow> (Some err, db)
      | None \<Rightarrow>
          (None,
           db\<lparr>bindings :=
                map (\<lambda>b. if Binding_ID b = id' \<and> Binding_DeletedAt b = None
                          then b\<lparr>Binding_DeletedAt := Some (db_now db)\<rparr> else b)
                  (bindings db)\<rparr>))"

definition bindingRepository :: "DB BindingRepository" where
  "bindingRepository =
     \<lparr>BindingRepo_Create = bindingRepository_Create,
      BindingRepo_GetByID = bindingRepository_GetByID,
      BindingRepo_Delete = bindingRepository_Delete\<rparr>"

subsection \<open>The evaluator and the service on the store\<close>

text \<open>
  \<^verbatim>\<open>NewPermissionEvaluator\<close> and \<^verbatim>\<open>NewIAMService\<close> applied to the repositories
  above, as \<^verbatim>\<open>cmd/server/main.go\<close> wires them, for a given cache and JSON codec.
\<close>

definition NewPermissionEvaluator :: "'c CacheService \<Rightarrow> json_decoder \<Rightarrow> (DB, 'c) permissionEvaluator" where
  "NewPermissionEvaluator cache' um =
     \<lparr>resourceRepo = resourceRepository, policyRepo = policyRepository,
      cache = cache', json_Unmarshal = um\<rparr>"

definition NewIAMService ::
  "'c CacheService \<Rightarrow> json_decoder \<Rightarrow> (string list \<Rightarrow> string \<times> error option) \<Rightarrow> (DB, 'c) IAMService" where
  "NewIAMService cache' um marshal =
     \<lparr>iam_resourceRepo = resourceRepository, iam_permissionRepo = permissionRepository,
      iam_roleRepo = roleRepository, iam_policyRepo = policyRepository,
      iam_bindingRepo = bindingRepository,
      iam_evaluator = NewPermissionEvaluator cache' um,
      iam_cache = cache', json_Marshal = marshal\<rparr>"

section \<open>A sample deployment\<close>

text \<open>
  The inherited-grant scenario of the specification: resources
  \<^verbatim>\<open>org -> project -> bucket\<close>, the role \<^verbatim>\<open>roles/storage.viewer\<close> holding
  \<^verbatim>\<open>storage.objects.read\<close>, and a policy on \<^verbatim>\<open>org\<close> whose single binding
  gives the role to \<^verbatim>\<open>user:alice@example.com\<close>. The JSON codec is fixed on the
  byte strings that occur: the members column of that binding decodes to the one
  principal, and a list of members is encoded by quoting each one (no member here
  needs an escape).
\<close>

definition alice :: string where
  "alice = ''user:alice@example.com''"

definition storage_objects_read :: string where
  "storage_objects_read = ''storage.objects.read''"

fun quote_members :: "string list \<Rightarrow> string" where
  "quote_members [] = []"
| "quote_members [m] = [CHR 0x22] @ m @ [CHR 0x22]"
| "quote_members (m # ms) = [CHR 0x22] @ m @ [CHR 0x22] @ '','' @ quote_members ms"

definition sample_marshal :: "string list \<Rightarrow> string \<times> error option" where
  "sample_marshal members = (''['' @ quote_members members @ '']'', None)"

definition sample_unmarshal :: json_decoder where
  "sample_unmarshal bytes =
     (if bytes = fst (sample_marshal [alice]) then ([alice], None)
      else ([], Some (Err ''invalid character'')))"

definition org_id :: uuid where "org_id = 1"
definition project_id :: uuid where "project_id = 2"
definition bucket_id :: uuid where "bucket_id = 3"
definition viewer_id :: uuid where "viewer_id = 20"

definition sample_binding :: Binding where
  "sample_binding =
     \<lparr>Binding_ID = 40, Binding_PolicyID = 30, Binding_RoleID = viewer_id, Binding_Role = None,
      Binding_Members = fst (sample_marshal [alice]), Binding_Condition = None,
      Binding_DeletedAt = None\<rparr>"

definition sample_db :: DB where
  "sample_db =
     \<lparr>resources =
        [\<lparr>Resource_ID = org_id, Resource_Type = ''organization'', Resource_Name = ''org'',
          Resource_ParentID = None, Resource_Attributes = [], Resource_DeletedAt = None\<rparr>,
         \<lparr>Resource_ID = project_id, Resource_Type = ''project'', Resource_Name = ''project'',
          Resource_ParentID = Some org_id, Resource_Attributes = [], Resource_DeletedAt = None\<rparr>,
         \<lparr>Resource_ID = bucket_id, Resource_Type = ''bucket'', Resource_Name = ''bucket'',
          Resource_ParentID = Some project_id, Resource_Attributes = [],
          Resource_DeletedAt = None\<rparr>],
      permissions =
        [\<lparr>Permission_ID = 10, Permission_Name = storage_objects_read,
          Permission_Description = [], Permission_Service = ''storage'',
          Permission_DeletedAt = None\<rparr>],
      roles =
        [\<lparr>Role_ID = viewer_id, Role_Name = ''roles/storage.viewer'', Role_Title = ''Viewer'',
          Role_Description = [], Role_Permissions = [], Role_IsCustom = False,
          Role_DeletedAt = None\<rparr>],
      role_permissions = [(viewer_id, 10)],
      policies =
        [\<lparr>Policy_ID = 30, Policy_ResourceID = org_id, Policy_Bindings = [],
          Policy_ETag = ''etag-1'', Policy_Version = 1, Policy_DeletedAt = None\<rparr>],
      bindings = [sample_binding],
      conditions = [],
      entropy = (\<lambda>n. of_nat (1000 + n)),
      drawn = 0,
      db_now = 5,
      db_error = None\<rparr>"

definition sample_cache :: "bool cacheService" where
  "sample_cache =
     NewCacheService \<lparr>Enabled = True, TTLSeconds = 300, MaxSize = 100, CleanupMinutes = 10\<rparr>"

definition sample_service :: "(DB, bool cacheService) IAMService" where
  "sample_service = NewIAMService (memoryCache 0) sample_unmarshal sample_marshal"

text \<open>
  A policy repository whose lookup by resource fails (a lost connection, say), the way a
  mock of the tests returns an error; and the sample evaluator reading policies from it.
\<close>

definition unreachable_policies :: "DB PolicyRepository" where
  "unreachable_policies =
     policyRepository\<lparr>PolicyRepo_GetByResourceID :=
       (\<lambda>db resourceID. (None, Some (Err ''connection reset by peer'')))\<rparr>"

definition blind_evaluator :: "(DB, bool cacheService) permissionEvaluator" where
  "blind_evaluator = (iam_evaluator sample_service)\<lparr>policyRepo := unreachable_policies\<rparr>"

text \<open>
  States of the sample deployment: after alice's first check on the bucket (the grant on
  \<^verbatim>\<open>org\<close> is now cached), then after the role is deleted, or after the bucket is
  deleted; after her check on \<^verbatim>\<open>org\<close> itself; and the latter with the connection
  to the database lost.
\<close>

definition after_check :: "DB \<times> bool cacheService" where
  "after_check =
     snd (IAMService_CheckPermission sample_service alice bucket_id storage_objects_read
            Map.empty (sample_db, sample_cache))"

definition after_delete_role :: "DB \<times> bool cacheService" where
  "after_delete_role = snd (DeleteRole sample_service viewer_id after_check)"

definition after_delete_resource :: "DB \<times> bool cacheService" where
  "after_delete_resource = snd (DeleteResource sample_service bucket_id after_check)"

definition after_check_org :: "DB \<times> bool cacheService" where
  "after_check_org =
     snd (IAMService_CheckPermission sample_service alice org_id storage_objects_read
            Map.empty (sample_db, sample_cache))"

definition connection_lost :: "DB \<times> bool cacheService" where
  "connection_lost =
     ((fst after_check_org)\<lparr>db_error := Some (Err ''connection refused'')\<rparr>,
      snd after_check_org)"

text \<open>A condition that a caller may hand to \<^verbatim>\<open>CreateBinding\<close>.\<close>

definition office_hours :: Condition where
  "office_hours =
     \<lparr>Condition_ID = uuid_Nil, Condition_BindingID = uuid_Nil, Condition_Title = ''office hours'',
      Condition_Description = [], Condition_Expression = ''request.time.getHours() < 18'',
      Condition_DeletedAt = None\<rparr>"

text \<open>
  Bindings for the membership test: one with the two members of the comment in the source,
  one whose members column is the JSON array of alice and \<^verbatim>\<open>null\<close>, and one
  whose members column is not JSON.
\<close>

definition team_binding :: Binding where
  "team_binding =
     sample_binding\<lparr>Binding_Members := fst (sample_marshal [alice, ''group:admins''])\<rparr>"

definition null_member_binding :: Binding where
  "null_member_binding =
     sample_binding\<lparr>Binding_Members := ''['' @ [CHR 0x22] @ alice @ [CHR 0x22] @ '',null]''\<rparr>"

definition broken_binding :: Binding where
  "broken_binding = sample_binding\<lparr>Binding_Members := ''{''\<rparr>"

text \<open>
  A cache for two entries that live one second, filled by two calls of \<^verbatim>\<open>Set\<close>, at
  0 s and at 0.5 s.
\<close>

definition small_cache :: "bool cacheService" where
  "small_cache =
     NewCacheService \<lparr>Enabled = True, TTLSeconds = 1, MaxSize = 2, CleanupMinutes = 10\<rparr>"

definition full_cache :: "bool cacheService" where
  "full_cache =
     cacheService_Set 500000000 (cacheService_Set 0 small_cache ''a'' True) ''b'' False"

text \<open>
  The sample store with the condition above attached to alice's binding, and a request
  context outside the hours that the condition names.
\<close>

definition conditioned_db :: DB where
  "conditioned_db =
     sample_db\<lparr>conditions :=
       [office_hours\<lparr>Condition_ID := 50, Condition_BindingID := Binding_ID sample_binding\<rparr>]\<rparr>"

definition late_night :: request_context where
  "late_night = [''request.time'' \<mapsto> ''2024-01-01T23:30:00Z'']"


section \<open>Properties of the domain model and the cache\<close>

lemma has_member_loop_iff: "has_member_loop members principal' \<longleftrightarrow> principal' \<in> set members"
  by (induction members) auto

lemma has_permission_loop_iff:
  "has_permission_loop perms n \<longleftrightarrow> n \<in> Permission_Name ` set perms"
  by (induction perms) auto

lemma parse_array_not_null: "parse_array bytes = Some elements \<Longrightarrow> \<not> json_null bytes"
  by (auto simp: parse_array_def json_null_def split: list.splits if_splits)

lemma json_Unmarshal_string_array:
  assumes "json_string_array bytes"
  shows "snd (json_Unmarshal_strings bytes) = None \<and>
         parse_array bytes = Some (map Some (fst (json_Unmarshal_strings bytes)))"
proof -
  from assms obtain elements where p: "parse_array bytes = Some elements"
    and all: "list_all (\<lambda>e. e \<noteq> None) elements"
    by (auto simp: json_string_array_def split: option.splits)
  from all have "map Some (map (\<lambda>e. case e of None \<Rightarrow> [] | Some s \<Rightarrow> s) elements) = elements"
    by (induction elements) auto
  with p parse_array_not_null [OF p] show ?thesis
    by (simp add: json_Unmarshal_strings_def)
qed

text \<open>The decoder fixed for the sample deployment is \<^verbatim>\<open>json.Unmarshal\<close> on its binding.\<close>

lemma sample_unmarshal_agrees:
  "sample_unmarshal (Binding_Members sample_binding) = json_Unmarshal_strings (Binding_Members sample_binding)"
  by code_simp

text \<open>
  C7, as the code has it. Membership is exact equality of byte strings with a decoded
  member: whatever the decoder, \<^verbatim>\<open>HasMember\<close> holds exactly when the decoder returns
  no error for the stored bytes and the principal is one of the members it decoded (so a
  principal that equals none of them, however close, is no member), and
  \<^verbatim>\<open>GetMembers\<close> then returns all of those members; when the decoder returns an error,
  \<^verbatim>\<open>GetMembers\<close> yields the empty list with that error and \<^verbatim>\<open>HasMember\<close> is
  false for every principal. As for \<^verbatim>\<open>json.Unmarshal\<close>: a well-formed JSON string
  array is decoded without error to its strings, in order; and it returns no error exactly
  for the JSON \<^verbatim>\<open>null\<close>, which gives no members, and for the arrays of strings and
  \<^verbatim>\<open>null\<close>s, where a \<^verbatim>\<open>null\<close> gives the empty string.
\<close>

theorem HasMember_byte_exact:
  "(HasMember um b principal' \<longleftrightarrow>
      snd (um (Binding_Members b)) = None \<and> principal' \<in> set (fst (um (Binding_Members b)))) \<and>
   (snd (um (Binding_Members b)) = None \<longrightarrow>
      GetMembers um b = (fst (um (Binding_Members b)), None)) \<and>
   (\<forall>err. snd (um (Binding_Members b)) = Some err \<longrightarrow>
      GetMembers um b = ([], Some err) \<and> (\<forall>p. \<not> HasMember um b p)) \<and>
   (json_string_array (Binding_Members b) \<longrightarrow>
      snd (json_Unmarshal_strings (Binding_Members b)) = None \<and>
      parse_array (Binding_Members b) = Some (map Some (fst (json_Unmarshal_strings (Binding_Members b))))) \<and>
   (snd (json_Unmarshal_strings (Binding_Members b)) = None \<longleftrightarrow>
      json_null (Binding_Members b) \<or> parse_array (Binding_Members b) \<noteq> None) \<and>
   (json_null (Binding_Members b) \<longrightarrow> json_Unmarshal_strings (Binding_Members b) = ([], None)) \<and>
   (\<forall>elements. parse_array (Binding_Members b) = Some elements \<longrightarrow>
      json_Unmarshal_strings (Binding_Members b) =
        (map (\<lambda>e. case e of None \<Rightarrow> [] | Some s \<Rightarrow> s) elements, None))"
proof -
  have "HasMember um b principal' \<longleftrightarrow>
      snd (um (Binding_Members b)) = None \<and> principal' \<in> set (fst (um (Binding_Members b)))"
    by (cases "um (Binding_Members b)")
       (auto simp: HasMember_def GetMembers_def has_member_loop_iff split: option.splits)
  moreover have "snd (um (Binding_Members b)) = None \<longrightarrow>
      GetMembers um b = (fst (um (Binding_Members b)), None)"
    by (cases "um (Binding_Members b)") (auto simp: GetMembers_def)
  moreover have "\<forall>err. snd (um (Binding_Members b)) = Some err \<longrightarrow>
      GetMembers um b = ([], Some err) \<and> (\<forall>p. \<not> HasMember um b p)"
    by (cases "um (Binding_Members b)") (auto simp: HasMember_def GetMembers_def)
  moreover have "snd (json_Unmarshal_strings (Binding_Members b)) = None \<longleftrightarrow>
      json_null (Binding_Members b) \<or> parse_array (Binding_Members b) \<noteq> None"
    by (auto simp: json_Unmarshal_strings_def split: option.splits)
  moreover have "json_null (Binding_Members b) \<longrightarrow>
      json_Unmarshal_strings (Binding_Members b) = ([], None)"
    by (simp add: json_Unmarshal_strings_def)
  moreover have "\<forall>elements. parse_array (Binding_Members b) = Some elements \<longrightarrow>
      json_Unmarshal_strings (Binding_Members b) =
        (map (\<lambda>e. case e of None \<Rightarrow> [] | Some s \<Rightarrow> s) elements, None)"
    using parse_array_not_null [of "Binding_Members b"]
    by (auto simp: json_Unmarshal_strings_def)
  ultimately show ?thesis
    using json_Unmarshal_string_array [of "Binding_Members b"] by blast
qed

theorem HasMember_byte_exact_witness:
  "json_string_array (Binding_Members team_binding) \<and>
   GetMembers json_Unmarshal_strings team_binding = ([alice, ''group:admins''], None) \<and>
   HasMember json_Unmarshal_strings team_binding alice \<and>
   HasMember json_Unmarshal_strings team_binding ''group:admins'' \<and>
   \<not> HasMember json_Unmarshal_strings team_binding ''Group:admins'' \<and>
   \<not> HasMember json_Unmarshal_strings team_binding ''group:admins '' \<and>
   \<not> HasMember json_Unmarshal_strings team_binding ''group:admin'' \<and>
   GetMembers json_Unmarshal_strings broken_binding = ([], Some json_error) \<and>
   \<not> HasMember json_Unmarshal_strings broken_binding alice \<and>
   json_null (Binding_Members (sample_binding\<lparr>Binding_Members := ''null''\<rparr>)) \<and>
   GetMembers json_Unmarshal_strings (sample_binding\<lparr>Binding_Members := ''null''\<rparr>) = ([], None)"
proof -
  have wf: "json_string_array (Binding_Members team_binding)" by code_simp
  have dec: "json_Unmarshal_strings (Binding_Members team_binding) = ([alice, ''group:admins''], None)"
    by code_simp
  have bad: "json_Unmarshal_strings (Binding_Members broken_binding) = ([], Some json_error)"
    by code_simp
  have names: "''Group:admins'' \<notin> set [alice, ''group:admins'']"
    "''group:admins '' \<notin> set [alice, ''group:admins'']"
    "''group:admin'' \<notin> set [alice, ''group:admins'']"
    by (simp_all add: alice_def)
  note team = HasMember_byte_exact [of json_Unmarshal_strings team_binding]
  note broken = HasMember_byte_exact [of json_Unmarshal_strings broken_binding alice]
  from team [of alice] dec
  have members: "GetMembers json_Unmarshal_strings team_binding = ([alice, ''group:admins''], None)"
    by simp
  from team [of alice] dec have m1: "HasMember json_Unmarshal_strings team_binding alice" by simp
  from team [of "''group:admins''"] dec
  have m2: "HasMember json_Unmarshal_strings team_binding ''group:admins''"
    by simp
  from team [of "''Group:admins''"] dec names(1)
  have n1: "\<not> HasMember json_Unmarshal_strings team_binding ''Group:admins''" by simp
  from team [of "''group:admins ''"] dec names(2)
  have n2: "\<not> HasMember json_Unmarshal_strings team_binding ''group:admins ''" by simp
  from team [of "''group:admin''"] dec names(3)
  have n3: "\<not> HasMember json_Unmarshal_strings team_binding ''group:admin''" by simp
  from broken bad have b1: "GetMembers json_Unmarshal_strings broken_binding = ([], Some json_error)"
    and b2: "\<not> HasMember json_Unmarshal_strings broken_binding alice"
    by simp_all
  have null: "json_null (Binding_Members (sample_binding\<lparr>Binding_Members := ''null''\<rparr>))"
    by code_simp
  with HasMember_byte_exact
         [of json_Unmarshal_strings "sample_binding\<lparr>Binding_Members := ''null''\<rparr>" alice]
  have "json_Unmarshal_strings (Binding_Members (sample_binding\<lparr>Binding_Members := ''null''\<rparr>)) =
          ([], None)"
    by blast
  with HasMember_byte_exact
         [of json_Unmarshal_strings "sample_binding\<lparr>Binding_Members := ''null''\<rparr>" alice]
  have none: "GetMembers json_Unmarshal_strings (sample_binding\<lparr>Binding_Members := ''null''\<rparr>) =
          ([], None)"
    by simp
  from wf members m1 m2 n1 n2 n3 b1 b2 null none show ?thesis by blast
qed

text \<open>
  C7 as stated fails: the members column that holds the array of alice and
  \<^verbatim>\<open>null\<close> is not a well-formed JSON string array, yet \<^verbatim>\<open>json.Unmarshal\<close>
  returns no error for it, \<^verbatim>\<open>GetMembers\<close> yields alice and the empty string, and
  \<^verbatim>\<open>HasMember\<close> is true of alice.
\<close>

theorem HasMember_null_element_counterexample:
  "\<not> json_string_array (Binding_Members null_member_binding) \<and>
   GetMembers json_Unmarshal_strings null_member_binding = ([alice, []], None) \<and>
   HasMember json_Unmarshal_strings null_member_binding alice"
  by code_simp

lemma len_fmupd_le: "len (fmupd k v m) \<le> len m + 1"
  by (simp add: len_def fcard_finsert_if)

lemma len_fmempty: "len fmempty = 0"
  by (simp add: len_def)

lemma cacheService_Set_below:
  "enabled c \<Longrightarrow> len (data c) < MaxSize (cfg c) \<Longrightarrow>
   cacheService_Set now c k v =
     c\<lparr>data := fmupd k \<lparr>entry_value = v, expiration = now + ttl c\<rparr> (data c)\<rparr>"
  by (simp add: cacheService_Set_def)

text \<open>
  C8. With a positive \<^verbatim>\<open>MaxSize\<close>, the map of an enabled cache holds at most
  \<^verbatim>\<open>MaxSize\<close> entries after any \<^verbatim>\<open>Set\<close>, whatever it held before; a disabled
  cache is left as it is. The three cases of \<^verbatim>\<open>Set\<close> are spelled out: below the
  bound the entry is added; at the bound the expired entries are swept first; if the map is
  still at the bound it is replaced by an empty one before the entry is added. The sweep
  \<^verbatim>\<open>evictExpired\<close> removes exactly the entries whose expiration lies strictly before
  \<open>now\<close> and keeps every other entry as it is. Neither the sweep nor \<^verbatim>\<open>Set\<close>
  changes the configuration, so the bound stays the same.
\<close>

theorem cacheService_Set_bounded:
  assumes "0 < MaxSize (cfg c)"
  shows "(enabled c \<longrightarrow> len (data (cacheService_Set now c key v)) \<le> MaxSize (cfg c)) \<and>
         (\<not> enabled c \<longrightarrow> cacheService_Set now c key v = c) \<and>
         (enabled c \<longrightarrow>
            data (cacheService_Set now c key v) =
              fmupd key \<lparr>entry_value = v, expiration = now + ttl c\<rparr>
                (if len (data c) < MaxSize (cfg c) then data c
                 else if len (data (evictExpired now c)) < MaxSize (cfg c)
                      then data (evictExpired now c)
                      else fmempty)) \<and>
         fmlookup (data (evictExpired now c)) k =
           (case fmlookup (data c) k of
              None \<Rightarrow> None
            | Some entry \<Rightarrow> if now > expiration entry then None else Some entry) \<and>
         len (data (evictExpired now c)) \<le> len (data c) \<and>
         cfg (evictExpired now c) = cfg c \<and> enabled (evictExpired now c) = enabled c \<and>
         ttl (evictExpired now c) = ttl c \<and>
         cfg (cacheService_Set now c key v) = cfg c \<and>
         enabled (cacheService_Set now c key v) = enabled c \<and>
         ttl (cacheService_Set now c key v) = ttl c"
proof -
  have cfg_evict: "cfg (evictExpired now c) = cfg c" and ttl_evict: "ttl (evictExpired now c) = ttl c"
    and enabled_evict: "enabled (evictExpired now c) = enabled c"
    by (simp_all add: evictExpired_def)
  have shape: "enabled c \<Longrightarrow>
      data (cacheService_Set now c key v) =
        fmupd key \<lparr>entry_value = v, expiration = now + ttl c\<rparr>
          (if len (data c) < MaxSize (cfg c) then data c
           else if len (data (evictExpired now c)) < MaxSize (cfg c)
                then data (evictExpired now c)
                else fmempty)"
    by (simp add: cacheService_Set_def Let_def cfg_evict ttl_evict not_less)
  have bound: "len (data (cacheService_Set now c key v)) \<le> MaxSize (cfg c)" if en: "enabled c"
  proof -
    let ?e = "\<lparr>entry_value = v, expiration = now + ttl c\<rparr>"
    consider (below) "len (data c) < MaxSize (cfg c)"
      | (swept) "\<not> len (data c) < MaxSize (cfg c)" "len (data (evictExpired now c)) < MaxSize (cfg c)"
      | (reset) "\<not> len (data c) < MaxSize (cfg c)" "\<not> len (data (evictExpired now c)) < MaxSize (cfg c)"
      by blast
    then show ?thesis
    proof cases
      case below
      then show ?thesis
        using len_fmupd_le [of key ?e "data c"] by (simp add: shape [OF en])
    next
      case swept
      then show ?thesis
        using len_fmupd_le [of key ?e "data (evictExpired now c)"] by (simp add: shape [OF en])
    next
      case reset
      then show ?thesis
        using len_fmupd_le [of key ?e fmempty] assms by (simp add: shape [OF en] len_fmempty)
    qed
  qed
  have sweep: "fmlookup (data (evictExpired now c)) k =
           (case fmlookup (data c) k of
              None \<Rightarrow> None
            | Some entry \<Rightarrow> if now > expiration entry then None else Some entry)"
    by (simp add: evictExpired_def split: option.splits)
  have "fmdom (data (evictExpired now c)) |\<subseteq>| fmdom (data c)"
    by (auto simp: evictExpired_def)
  then have fewer: "len (data (evictExpired now c)) \<le> len (data c)"
    by (simp add: len_def fcard_mono)
  have fields: "cfg (cacheService_Set now c key v) = cfg c \<and>
         enabled (cacheService_Set now c key v) = enabled c \<and>
         ttl (cacheService_Set now c key v) = ttl c"
    by (simp add: cacheService_Set_def Let_def cfg_evict ttl_evict enabled_evict)
  have off: "\<not> enabled c \<Longrightarrow> cacheService_Set now c key v = c"
    by (simp add: cacheService_Set_def)
  from shape bound off sweep fewer cfg_evict enabled_evict ttl_evict fields
  show ?thesis by blast
qed

text \<open>
  On the cache of two entries: while it is empty a \<^verbatim>\<open>Set\<close> adds the entry, and does
  nothing if the cache is disabled. Once both entries are in, a \<^verbatim>\<open>Set\<close> at 1.2 s
  sweeps the entry that expired at 1 s, keeps the other and adds the new one; a
  \<^verbatim>\<open>Set\<close> at 0.6 s finds nothing to sweep and discards the map before it adds the
  new entry.
\<close>

theorem cacheService_Set_bounded_witness:
  "0 < MaxSize (cfg small_cache) \<and> enabled small_cache \<and> len (data small_cache) = 0 \<and>
   data (cacheService_Set 0 small_cache ''a'' True) =
     fmupd ''a'' \<lparr>entry_value = True, expiration = 1000000000\<rparr> fmempty \<and>
   cacheService_Set 0 (small_cache\<lparr>enabled := False\<rparr>) ''a'' True =
     small_cache\<lparr>enabled := False\<rparr> \<and>
   0 < MaxSize (cfg full_cache) \<and> enabled full_cache \<and>
   MaxSize (cfg full_cache) = 2 \<and> len (data full_cache) = 2 \<and>
   fmlookup (data full_cache) ''a'' = Some \<lparr>entry_value = True, expiration = 1000000000\<rparr> \<and>
   fmlookup (data full_cache) ''b'' = Some \<lparr>entry_value = False, expiration = 1500000000\<rparr> \<and>
   data (evictExpired 1200000000 full_cache) =
     fmupd ''b'' \<lparr>entry_value = False, expiration = 1500000000\<rparr> fmempty \<and>
   data (cacheService_Set 1200000000 full_cache ''c'' True) =
     fmupd ''c'' \<lparr>entry_value = True, expiration = 2200000000\<rparr>
       (fmupd ''b'' \<lparr>entry_value = False, expiration = 1500000000\<rparr> fmempty) \<and>
   len (data (cacheService_Set 1200000000 full_cache ''c'' True)) \<le> 2 \<and>
   data (evictExpired 600000000 full_cache) = data full_cache \<and>
   data (cacheService_Set 600000000 full_cache ''c'' True) =
     fmupd ''c'' \<lparr>entry_value = True, expiration = 1600000000\<rparr> fmempty \<and>
   len (data (cacheService_Set 600000000 full_cache ''c'' True)) \<le> 2"
proof -
  have small: "enabled small_cache" "MaxSize (cfg small_cache) = 2"
    "ttl small_cache = 1000000000" "data small_cache = fmempty"
    by (simp_all add: small_cache_def NewCacheService_def)
  have one: "cacheService_Set 0 small_cache ''a'' True =
      small_cache\<lparr>data := fmupd ''a'' \<lparr>entry_value = True, expiration = 1000000000\<rparr> fmempty\<rparr>"
    by (simp add: cacheService_Set_below small len_fmempty)
  have full: "data full_cache =
       fmupd ''b'' \<lparr>entry_value = False, expiration = 1500000000\<rparr>
         (fmupd ''a'' \<lparr>entry_value = True, expiration = 1000000000\<rparr> fmempty)"
    "MaxSize (cfg full_cache) = 2" "enabled full_cache" "ttl full_cache = 1000000000"
    by (simp_all add: full_cache_def one cacheService_Set_below small len_def fcard_finsert_if)
  have pos0: "0 < MaxSize (cfg small_cache)" by (simp add: small)
  have len0: "len (data small_cache) = 0" by (simp add: small len_fmempty)
  from cacheService_Set_bounded [OF pos0, of 0 "''a''" True] small(1)
  have "data (cacheService_Set 0 small_cache ''a'' True) =
              fmupd ''a'' \<lparr>entry_value = True, expiration = 0 + ttl small_cache\<rparr>
                (if len (data small_cache) < MaxSize (cfg small_cache) then data small_cache
                 else if len (data (evictExpired 0 small_cache)) < MaxSize (cfg small_cache)
                      then data (evictExpired 0 small_cache)
                      else fmempty)"
    by blast
  then have "data (cacheService_Set 0 small_cache ''a'' True) =
     fmupd ''a'' \<lparr>entry_value = True, expiration = 1000000000\<rparr> (data small_cache)"
    by (simp add: len0 small(2) small(3))
  then have below_case: "data (cacheService_Set 0 small_cache ''a'' True) =
     fmupd ''a'' \<lparr>entry_value = True, expiration = 1000000000\<rparr> fmempty"
    by (simp add: small(4))
  have "0 < MaxSize (cfg (small_cache\<lparr>enabled := False\<rparr>))"
    "\<not> enabled (small_cache\<lparr>enabled := False\<rparr>)"
    by (simp_all add: small)
  with cacheService_Set_bounded [of "small_cache\<lparr>enabled := False\<rparr>" 0 "''a''" True]
  have off_case: "cacheService_Set 0 (small_cache\<lparr>enabled := False\<rparr>) ''a'' True =
     small_cache\<lparr>enabled := False\<rparr>"
    by blast
  have pos: "0 < MaxSize (cfg full_cache)" by (simp add: full)
  have len2: "len (data full_cache) = 2" by (simp add: full len_def fcard_finsert_if)
  have a: "fmlookup (data full_cache) ''a'' = Some \<lparr>entry_value = True, expiration = 1000000000\<rparr>"
    and b: "fmlookup (data full_cache) ''b'' = Some \<lparr>entry_value = False, expiration = 1500000000\<rparr>"
    by (simp_all add: full)
  note late = cacheService_Set_bounded [OF pos, of 1200000000 "''c''" True]
  note early = cacheService_Set_bounded [OF pos, of 600000000 "''c''" True]
  have swept: "data (evictExpired 1200000000 full_cache) =
     fmupd ''b'' \<lparr>entry_value = False, expiration = 1500000000\<rparr> fmempty"
  proof (rule fmap_ext)
    fix k
    from late [of k]
    have "fmlookup (data (evictExpired 1200000000 full_cache)) k =
           (case fmlookup (data full_cache) k of
              None \<Rightarrow> None
            | Some entry \<Rightarrow> if 1200000000 > expiration entry then None else Some entry)"
      by blast
    then show "fmlookup (data (evictExpired 1200000000 full_cache)) k =
           fmlookup (fmupd ''b'' \<lparr>entry_value = False, expiration = 1500000000\<rparr> fmempty) k"
      by (simp add: full)
  qed
  have kept: "data (evictExpired 600000000 full_cache) = data full_cache"
  proof (rule fmap_ext)
    fix k
    from early [of k]
    have "fmlookup (data (evictExpired 600000000 full_cache)) k =
           (case fmlookup (data full_cache) k of
              None \<Rightarrow> None
            | Some entry \<Rightarrow> if 600000000 > expiration entry then None else Some entry)"
      by blast
    then show "fmlookup (data (evictExpired 600000000 full_cache)) k = fmlookup (data full_cache) k"
      by (simp add: full)
  qed
  have len1: "len (data (evictExpired 1200000000 full_cache)) = 1"
    by (simp add: swept len_def fcard_finsert_if)
  from late [of "''c''"] full(3)
  have "data (cacheService_Set 1200000000 full_cache ''c'' True) =
              fmupd ''c'' \<lparr>entry_value = True, expiration = 1200000000 + ttl full_cache\<rparr>
                (if len (data full_cache) < MaxSize (cfg full_cache) then data full_cache
                 else if len (data (evictExpired 1200000000 full_cache)) < MaxSize (cfg full_cache)
                      then data (evictExpired 1200000000 full_cache)
                      else fmempty)"
    by blast
  then have "data (cacheService_Set 1200000000 full_cache ''c'' True) =
     fmupd ''c'' \<lparr>entry_value = True, expiration = 2200000000\<rparr>
       (data (evictExpired 1200000000 full_cache))"
    by (simp add: len2 len1 full(2) full(4))
  then have sweep_case: "data (cacheService_Set 1200000000 full_cache ''c'' True) =
     fmupd ''c'' \<lparr>entry_value = True, expiration = 2200000000\<rparr>
       (fmupd ''b'' \<lparr>entry_value = False, expiration = 1500000000\<rparr> fmempty)"
    by (simp add: swept)
  from early [of "''c''"] full(3)
  have "data (cacheService_Set 600000000 full_cache ''c'' True) =
              fmupd ''c'' \<lparr>entry_value = True, expiration = 600000000 + ttl full_cache\<rparr>
                (if len (data full_cache) < MaxSize (cfg full_cache) then data full_cache
                 else if len (data (evictExpired 600000000 full_cache)) < MaxSize (cfg full_cache)
                      then data (evictExpired 600000000 full_cache)
                      else fmempty)"
    by blast
  then have reset_case: "data (cacheService_Set 600000000 full_cache ''c'' True) =
     fmupd ''c'' \<lparr>entry_value = True, expiration = 1600000000\<rparr> fmempty"
    by (simp add: len2 kept full(2) full(4))
  from late [of "''c''"] full(3)
  have "len (data (cacheService_Set 1200000000 full_cache ''c'' True)) \<le> MaxSize (cfg full_cache)"
    by blast
  then have bound1: "len (data (cacheService_Set 1200000000 full_cache ''c'' True)) \<le> 2"
    by (simp only: full(2))
  from early [of "''c''"] full(3)
  have "len (data (cacheService_Set 600000000 full_cache ''c'' True)) \<le> MaxSize (cfg full_cache)"
    by blast
  then have bound2: "len (data (cacheService_Set 600000000 full_cache ''c'' True)) \<le> 2"
    by (simp only: full(2))
  from pos0 small(1) len0 below_case off_case
    pos full(3) full(2) len2 a b swept sweep_case bound1 kept reset_case bound2
  show ?thesis by blast
qed

section \<open>Properties of the evaluator\<close>

lemma evaluateCondition_True: "evaluateCondition condition ctx"
  by (simp add: evaluateCondition_def)

lemma check_bindings_context:
  "check_bindings um p r x ctx1 bs = check_bindings um p r x ctx2 bs"
  by (induction bs) (simp_all add: evaluateCondition_True split: option.splits)

lemma checkResourcePermission_context:
  "checkResourcePermission pe s p r x ctx1 = checkResourcePermission pe s p r x ctx2"
  by (simp add: checkResourcePermission_def check_bindings_context [of _ _ _ _ ctx1 _ ctx2]
        split: prod.splits option.splits)

lemma check_hierarchy_context:
  "check_hierarchy pe s k p x ctx1 rs c = check_hierarchy pe s k p x ctx2 rs c"
  by (induction rs)
     (simp_all add: checkResourcePermission_context [of _ _ _ _ _ ctx1 ctx2]
        split: prod.splits option.splits bool.splits)

lemma check_bindings_conditions:
  "check_bindings um p r x ctx (map (\<lambda>b. b\<lparr>Binding_Condition := None\<rparr>) bs) =
   check_bindings um p r x ctx bs"
  by (induction bs)
     (simp_all add: evaluateCondition_True HasMember_def GetMembers_def split: option.splits)

lemma checkResourcePermission_conditions:
  "checkResourcePermission (pe\<lparr>policyRepo := without_conditions (policyRepo pe)\<rparr>) s p r x ctx =
   checkResourcePermission pe s p r x ctx"
  by (simp add: checkResourcePermission_def without_conditions_def check_bindings_conditions
        split: prod.splits option.splits)

lemma check_hierarchy_conditions:
  "check_hierarchy (pe\<lparr>policyRepo := without_conditions (policyRepo pe)\<rparr>) s k p x ctx rs c =
   check_hierarchy pe s k p x ctx rs c"
  by (induction rs)
     (simp_all add: checkResourcePermission_conditions split: prod.splits option.splits bool.splits)

text \<open>
  C9. The decision does not depend on the request context: for the same evaluator,
  principal, resource, permission, store and cache, any two contexts give the same
  result (decision, reason, error and cache), because \<^verbatim>\<open>evaluateCondition\<close> is true
  of every condition and context. So no binding is vetoed by its condition: the loop over
  the bindings of a policy gives the same result when the condition of every binding is
  removed, and so does the whole check when the policy repository hands out the policies
  without their conditions.
\<close>

theorem CheckPermission_ignores_context:
  "CheckPermission pe p r x ctx1 s c = CheckPermission pe p r x ctx2 s c \<and>
   evaluateCondition condition ctx1 \<and>
   check_bindings um p r x ctx1 bs =
     check_bindings um p r x ctx1 (map (\<lambda>b. b\<lparr>Binding_Condition := None\<rparr>) bs) \<and>
   CheckPermission pe p r x ctx1 s c =
     CheckPermission (pe\<lparr>policyRepo := without_conditions (policyRepo pe)\<rparr>) p r x ctx1 s c"
proof -
  have "CheckPermission pe p r x ctx1 s c = CheckPermission pe p r x ctx2 s c"
    by (simp add: CheckPermission_def Let_def
        check_hierarchy_context [of _ _ _ _ _ ctx1 _ _ ctx2]
        del: check_hierarchy.simps split: prod.splits option.splits)
  moreover have "CheckPermission (pe\<lparr>policyRepo := without_conditions (policyRepo pe)\<rparr>) p r x ctx1 s c =
       CheckPermission pe p r x ctx1 s c"
    by (simp add: CheckPermission_def Let_def check_hierarchy_conditions
        del: check_hierarchy.simps split: prod.splits option.splits)
  ultimately show ?thesis
    by (simp add: evaluateCondition_True check_bindings_conditions)
qed

text \<open>
  On the store where alice's binding carries the condition on office hours, her check
  late at night is granted through that binding, as it is with no context at all and as
  it is when the conditions are taken away.
\<close>

theorem CheckPermission_ignores_context_witness:
  "map (map_option Condition_Expression \<circ> Binding_Condition)
     (Policy_Bindings (the (fst (policyRepository_GetByResourceID conditioned_db org_id)))) =
     [Some ''request.time.getHours() < 18''] \<and>
   fst (CheckPermission (iam_evaluator sample_service) alice bucket_id storage_objects_read
          late_night conditioned_db sample_cache) =
     (True, ''Permission granted via role '' @ [CHR 0x27] @ ''roles/storage.viewer'' @ [CHR 0x27] @
            '' on resource '' @ [CHR 0x27] @ uuid_String org_id @ [CHR 0x27], None) \<and>
   CheckPermission (iam_evaluator sample_service) alice bucket_id storage_objects_read
     late_night conditioned_db sample_cache =
   CheckPermission (iam_evaluator sample_service) alice bucket_id storage_objects_read
     Map.empty conditioned_db sample_cache \<and>
   CheckPermission (iam_evaluator sample_service) alice bucket_id storage_objects_read
     late_night conditioned_db sample_cache =
   CheckPermission
     ((iam_evaluator sample_service)
        \<lparr>policyRepo := without_conditions (policyRepo (iam_evaluator sample_service))\<rparr>)
     alice bucket_id storage_objects_read late_night conditioned_db sample_cache"
proof -
  have loaded: "map (map_option Condition_Expression \<circ> Binding_Condition)
     (Policy_Bindings (the (fst (policyRepository_GetByResourceID conditioned_db org_id)))) =
     [Some ''request.time.getHours() < 18'']"
    by code_simp
  have granted: "fst (CheckPermission (iam_evaluator sample_service) alice bucket_id
          storage_objects_read Map.empty conditioned_db sample_cache) =
     (True, ''Permission granted via role '' @ [CHR 0x27] @ ''roles/storage.viewer'' @ [CHR 0x27] @
            '' on resource '' @ [CHR 0x27] @ uuid_String org_id @ [CHR 0x27], None)"
    by code_simp
  note same = CheckPermission_ignores_context
    [of "iam_evaluator sample_service" alice bucket_id storage_objects_read late_night
        conditioned_db sample_cache Map.empty]
  from same have eq: "CheckPermission (iam_evaluator sample_service) alice bucket_id
       storage_objects_read late_night conditioned_db sample_cache =
     CheckPermission (iam_evaluator sample_service) alice bucket_id storage_objects_read
       Map.empty conditioned_db sample_cache"
    by blast
  from same have strip: "CheckPermission (iam_evaluator sample_service) alice bucket_id
       storage_objects_read late_night conditioned_db sample_cache =
     CheckPermission
       ((iam_evaluator sample_service)
          \<lparr>policyRepo := without_conditions (policyRepo (iam_evaluator sample_service))\<rparr>)
       alice bucket_id storage_objects_read late_night conditioned_db sample_cache"
    by blast
  from loaded granted eq strip show ?thesis by simp
qed




text \<open>
  C6, as the code has it. The cache is asked first, so a missing resource leads to the
  answer \<^verbatim>\<open>(false, "Resource not found", nil)\<close> only when the cache does not hold
  \<^verbatim>\<open>true\<close> under the key; then the lookup's \<^verbatim>\<open>(nil, nil)\<close> is not an error,
  and the cache is left as it was.
\<close>

theorem CheckPermission_resource_not_found:
  assumes "Get (cache pe) c (GenerateCacheKey p (uuid_String r) x) \<noteq> Some True"
    and "ResourceRepo_GetByID (resourceRepo pe) s r = (None, None)"
  shows "CheckPermission pe p r x ctx s c = ((False, ''Resource not found'', None), c)"
  using assms by (simp add: CheckPermission_def)

theorem CheckPermission_resource_not_found_witness:
  "Get (cache (iam_evaluator sample_service)) sample_cache
     (GenerateCacheKey alice (uuid_String 99) storage_objects_read) \<noteq> Some True \<and>
   ResourceRepo_GetByID (resourceRepo (iam_evaluator sample_service)) sample_db 99 = (None, None) \<and>
   CheckPermission (iam_evaluator sample_service) alice 99 storage_objects_read Map.empty
     sample_db sample_cache = ((False, ''Resource not found'', None), sample_cache)"
proof -
  have miss: "Get (cache (iam_evaluator sample_service)) sample_cache
     (GenerateCacheKey alice (uuid_String 99) storage_objects_read) \<noteq> Some True"
    by code_simp
  have gone: "ResourceRepo_GetByID (resourceRepo (iam_evaluator sample_service)) sample_db 99 =
     (None, None)"
    by code_simp
  from CheckPermission_resource_not_found [OF miss gone] miss gone show ?thesis by blast
qed

text \<open>
  C6 as stated fails: once the bucket has been deleted it no longer resolves, yet the
  check on it is answered \<^verbatim>\<open>true\<close> from the cache.
\<close>

theorem CheckPermission_missing_resource_counterexample:
  "resourceRepository_GetByID (fst after_delete_resource) bucket_id = (None, None) \<and>
   fst (IAMService_CheckPermission sample_service alice bucket_id storage_objects_read Map.empty
          after_delete_resource) =
     (True, ''Permission granted (cached)'', None)"
  by code_simp

lemma check_hierarchy_error:
  "check_hierarchy pe s k p x ctx rs c = ((allowed, reason, Some e), c') \<Longrightarrow> \<not> allowed \<and> c' = c"
  by (induction rs) (auto split: prod.splits option.splits bool.splits if_splits)

lemma CheckPermission_error_is_denial:
  "CheckPermission pe p r x ctx s c = ((allowed, reason, Some e), c') \<Longrightarrow> \<not> allowed \<and> c' = c"
  by (auto simp: CheckPermission_def Let_def simp del: check_hierarchy.simps
        split: if_splits prod.splits option.splits dest: check_hierarchy_error)

text \<open>
  What \<^verbatim>\<open>CheckPermission\<close> does with a failed fetch, once the cache has not
  answered: the error of the resource lookup, of the ancestor query, or of the first
  policy lookup that fails (no resource before it granting) is returned with a denial
  and the reason naming the stage.
\<close>

lemma checkResourcePermission_fetch_error:
  "snd (PolicyRepo_GetByResourceID (policyRepo pe) s r) = Some e \<Longrightarrow>
   checkResourcePermission pe s p r x ctx = (False, ''Error fetching policy'', Some e)"
  by (auto simp: checkResourcePermission_def split: prod.splits option.splits)

lemma check_hierarchy_fetch_error:
  "\<forall>r \<in> set before. \<exists>reason. checkResourcePermission pe s p r x ctx = (False, reason, None) \<Longrightarrow>
   snd (PolicyRepo_GetByResourceID (policyRepo pe) s failing) = Some e \<Longrightarrow>
   check_hierarchy pe s k p x ctx (before @ failing # rest) c =
     ((False, ''Error fetching policy'', Some e), c)"
  by (induction before) (auto simp: checkResourcePermission_fetch_error)

lemma CheckPermission_returns_fetch_errors:
  assumes "Get (cache pe) c (GenerateCacheKey p (uuid_String r) x) \<noteq> Some True"
  shows "snd (ResourceRepo_GetByID (resourceRepo pe) s r) = Some e \<Longrightarrow>
           CheckPermission pe p r x ctx s c = ((False, ''Error fetching resource'', Some e), c)"
    and "ResourceRepo_GetByID (resourceRepo pe) s r = (Some resource, None) \<Longrightarrow>
         snd (ResourceRepo_GetAncestors (resourceRepo pe) s r) = Some e \<Longrightarrow>
           CheckPermission pe p r x ctx s c =
             ((False, ''Error fetching resource ancestors'', Some e), c)"
    and "ResourceRepo_GetByID (resourceRepo pe) s r = (Some resource, None) \<Longrightarrow>
         ResourceRepo_GetAncestors (resourceRepo pe) s r = (ancestors, None) \<Longrightarrow>
         r # map Resource_ID ancestors = before @ failing # rest \<Longrightarrow>
         \<forall>r' \<in> set before. \<exists>reason. checkResourcePermission pe s p r' x ctx = (False, reason, None) \<Longrightarrow>
         snd (PolicyRepo_GetByResourceID (policyRepo pe) s failing) = Some e \<Longrightarrow>
           CheckPermission pe p r x ctx s c = ((False, ''Error fetching policy'', Some e), c)"
  using assms
  by (auto simp: CheckPermission_def Let_def check_hierarchy_fetch_error
        simp del: check_hierarchy.simps split: prod.splits option.splits)

lemma effective_hierarchy_policy_errors:
  "\<forall>resID \<in> set rs. snd (PolicyRepo_GetByResourceID (policyRepo pe) s resID) \<noteq> None \<Longrightarrow>
   effective_hierarchy pe s p rs acc = acc"
  by (induction rs) (auto split: prod.splits option.splits)

lemma GetEffectivePermissions_no_policy_error:
  "snd (ResourceRepo_GetByID (resourceRepo pe) s r) = None \<Longrightarrow>
   fst (ResourceRepo_GetByID (resourceRepo pe) s r) \<noteq> None \<Longrightarrow>
   snd (ResourceRepo_GetAncestors (resourceRepo pe) s r) = None \<Longrightarrow>
   snd (snd (GetEffectivePermissions pe p r s)) = None"
  by (auto simp: GetEffectivePermissions_def simp del: effective_hierarchy.simps
        split: prod.splits option.splits)

text \<open>
  C5 at the failing input. With a policy repository whose lookup fails,
  \<^verbatim>\<open>CheckPermission\<close> returns the error with the reason
  \<^verbatim>\<open>"Error fetching policy"\<close>, but \<^verbatim>\<open>GetEffectivePermissions\<close> returns empty
  lists and a \<^verbatim>\<open>nil\<close> error: its loop continues past the failed lookup.
\<close>

theorem GetEffectivePermissions_swallows_policy_error:
  "PolicyRepo_GetByResourceID (policyRepo blind_evaluator) sample_db bucket_id =
     (None, Some (Err ''connection reset by peer'')) \<and>
   GetEffectivePermissions blind_evaluator alice bucket_id sample_db = ([], [], None) \<and>
   fst (CheckPermission blind_evaluator alice bucket_id storage_objects_read Map.empty
          sample_db sample_cache) =
     (False, ''Error fetching policy'', Some (Err ''connection reset by peer''))"
  by code_simp

section \<open>Properties of the service\<close>

lemma role_and_permission_mutations_keep_cache:
  "snd (snd (CreateRole svc name title description ids st)) = snd st"
  "snd (snd (UpdateRole svc i title description ids st)) = snd st"
  "snd (snd (DeleteRole svc i st)) = snd st"
  "snd (snd (CreatePermission svc name description service st)) = snd st"
  by (auto simp: CreateRole_def UpdateRole_def DeleteRole_def CreatePermission_def Let_def
        split: prod.splits option.splits)

lemma policy_mutations_clear_cache:
  "CreatePolicy svc r bs st = ((res, None), st') \<Longrightarrow> snd st' = Clear (iam_cache svc) (snd st)"
  "UpdatePolicy svc r bs etag st = ((res, None), st') \<Longrightarrow> snd st' = Clear (iam_cache svc) (snd st)"
  "DeletePolicy svc r etag st = (None, st') \<Longrightarrow> snd st' = Clear (iam_cache svc) (snd st)"
  "CreateBinding svc r role ms cond st = ((b, None, cond'), st') \<Longrightarrow>
     snd st' = Clear (iam_cache svc) (snd st)"
  "snd (snd (DeleteBinding svc i st)) = Clear (iam_cache svc) (snd st)"
  by (auto simp: CreatePolicy_def UpdatePolicy_def DeletePolicy_def CreateBinding_def
        DeleteBinding_def Let_def split: prod.splits option.splits if_splits)

text \<open>
  C1 at the failing input. Alice's check on the bucket is granted through the role and
  cached. \<^verbatim>\<open>DeleteRole\<close> succeeds and leaves the cache as it was, so the next check
  is answered \<^verbatim>\<open>true\<close> from the cache, while the same check on the same store with
  the cache cleared is denied.
\<close>

theorem DeleteRole_leaves_stale_grant:
  "fst (IAMService_CheckPermission sample_service alice bucket_id storage_objects_read Map.empty
          (sample_db, sample_cache)) =
     (True, ''Permission granted via role '' @ [CHR 0x27] @ ''roles/storage.viewer'' @
            [CHR 0x27] @ '' on resource '' @ [CHR 0x27] @ uuid_String org_id @ [CHR 0x27], None) \<and>
   fst (DeleteRole sample_service viewer_id after_check) = None \<and>
   snd after_delete_role = snd after_check \<and>
   fst (IAMService_CheckPermission sample_service alice bucket_id storage_objects_read Map.empty
          after_delete_role) =
     (True, ''Permission granted (cached)'', None) \<and>
   fst (IAMService_CheckPermission sample_service alice bucket_id storage_objects_read Map.empty
          (fst after_delete_role, Clear (iam_cache sample_service) (snd after_delete_role))) =
     (False, ''Permission denied: no matching policy found'', None)"
  by code_simp

section \<open>Inheritance along the hierarchy\<close>

text \<open>
  The recursive query gives the same rows whatever bound it runs under, as long as the
  bound is not hit; every row it yields is a row of the table, and the query started from
  that row yields a part of the same rows.
\<close>

lemma cte_ancestors_deterministic:
  "cte_ancestors n rows a = Some xs \<Longrightarrow> cte_ancestors m rows a = Some ys \<Longrightarrow> xs = ys"
proof (induction n arbitrary: m a xs ys)
  case 0
  then show ?case by simp
next
  case (Suc n)
  then obtain m' where m: "m = Suc m'" by (cases m) auto
  show ?case
  proof (cases "Resource_ParentID a")
    case None
    with Suc.prems m show ?thesis by simp
  next
    case (Some pid)
    show ?thesis
    proof (cases "find (\<lambda>r. Resource_ID r = pid \<and> Resource_DeletedAt r = None) rows")
      case None
      with Suc.prems m Some show ?thesis by simp
    next
      case (Some r)
      with Suc.prems m \<open>Resource_ParentID a = Some pid\<close>
      obtain xs' ys' where "cte_ancestors n rows r = Some xs'" "xs = r # xs'"
        "cte_ancestors m' rows r = Some ys'" "ys = r # ys'"
        by auto
      with Suc.IH show ?thesis by blast
    qed
  qed
qed

lemma cte_ancestors_member:
  "cte_ancestors n rows a = Some xs \<Longrightarrow> e \<in> set xs \<Longrightarrow>
     e \<in> set rows \<and> (\<exists>m ys. m < n \<and> cte_ancestors m rows e = Some ys \<and> set ys \<subseteq> set xs)"
proof (induction n arbitrary: a xs)
  case 0
  then show ?case by simp
next
  case (Suc n)
  from Suc.prems obtain pid r xs' where
    r: "find (\<lambda>r. Resource_ID r = pid \<and> Resource_DeletedAt r = None) rows = Some r"
    and rest: "cte_ancestors n rows r = Some xs'" and xs: "xs = r # xs'"
    by (auto split: option.splits)
  from r have r_in: "r \<in> set rows" by (auto simp: find_Some_iff in_set_conv_nth)
  show ?case
  proof (cases "e = r")
    case True
    with rest xs r_in show ?thesis by auto
  next
    case False
    with Suc.prems xs have "e \<in> set xs'" by simp
    from Suc.IH [OF rest this] xs show ?thesis by (auto intro: less_SucI)
  qed
qed

lemma cte_ancestors_more_steps:
  "cte_ancestors m rows a = Some xs \<Longrightarrow> m \<le> k \<Longrightarrow> cte_ancestors k rows a = Some xs"
proof (induction m arbitrary: k a xs)
  case 0
  then show ?case by simp
next
  case (Suc m)
  then obtain k' where k: "k = Suc k'" "m \<le> k'" by (cases k) auto
  show ?case
  proof (cases "Resource_ParentID a")
    case None
    with Suc.prems k show ?thesis by simp
  next
    case (Some pid)
    show ?thesis
    proof (cases "find (\<lambda>r. Resource_ID r = pid \<and> Resource_DeletedAt r = None) rows")
      case None
      with Suc.prems k Some show ?thesis by simp
    next
      case (Some r)
      with Suc.prems \<open>Resource_ParentID a = Some pid\<close>
      obtain xs' where rest: "cte_ancestors m rows r = Some xs'" "xs = r # xs'"
        by auto
      from Suc.IH [OF rest(1) k(2)] rest(2) Some \<open>Resource_ParentID a = Some pid\<close> k(1)
      show ?thesis by simp
    qed
  qed
qed

text \<open>
  The bound that \<^verbatim>\<open>GetAncestors\<close> gives the recursive query is enough: the rows of
  a query that ends are distinct rows of the table, so if the query ends under any bound
  it ends, with the same rows, under the bound of one more than the table's length. The
  failure reported for a query that runs out of steps therefore stands for a query that
  no number of steps completes.
\<close>

lemma cte_ancestors_split:
  "cte_ancestors n rows a = Some xs \<Longrightarrow> e \<in> set xs \<Longrightarrow>
     \<exists>m pre ys. cte_ancestors m rows e = Some ys \<and> xs = pre @ e # ys"
proof (induction n arbitrary: a xs)
  case 0
  then show ?case by simp
next
  case (Suc n)
  from Suc.prems obtain r xs' where
    rest: "cte_ancestors n rows r = Some xs'" and xs: "xs = r # xs'"
    by (auto split: option.splits)
  show ?case
  proof (cases "e = r")
    case True
    with rest xs have "cte_ancestors n rows e = Some xs' \<and> xs = [] @ e # xs'" by simp
    then show ?thesis by blast
  next
    case False
    with Suc.prems xs have "e \<in> set xs'" by simp
    from Suc.IH [OF rest this] obtain m pre ys where
      "cte_ancestors m rows e = Some ys" "xs' = pre @ e # ys" by blast
    with xs have "cte_ancestors m rows e = Some ys \<and> xs = (r # pre) @ e # ys" by simp
    then show ?thesis by blast
  qed
qed

lemma cte_ancestors_distinct:
  "cte_ancestors n rows a = Some xs \<Longrightarrow> distinct xs"
proof (induction n arbitrary: a xs)
  case 0
  then show ?case by simp
next
  case (Suc n)
  show ?case
  proof (cases xs)
    case Nil
    then show ?thesis by simp
  next
    case (Cons r xs')
    with Suc.prems have rest: "cte_ancestors n rows r = Some xs'"
      by (auto split: option.splits)
    have "r \<notin> set xs'"
    proof
      assume "r \<in> set xs'"
      from cte_ancestors_split [OF rest this] obtain m pre ys where
        ys: "cte_ancestors m rows r = Some ys" "xs' = pre @ r # ys" by blast
      from cte_ancestors_deterministic [OF rest ys(1)] ys(2) have "ys = pre @ r # ys" by simp
      then have "length ys = length (pre @ r # ys)" by simp
      then show False by simp
    qed
    with Suc.IH [OF rest] Cons show ?thesis by simp
  qed
qed

lemma cte_ancestors_exact_steps:
  "cte_ancestors n rows a = Some xs \<Longrightarrow> cte_ancestors (Suc (length xs)) rows a = Some xs"
proof (induction n arbitrary: a xs)
  case 0
  then show ?case by simp
next
  case (Suc n)
  show ?case
  proof (cases "Resource_ParentID a")
    case None
    with Suc.prems show ?thesis by simp
  next
    case (Some pid)
    show ?thesis
    proof (cases "find (\<lambda>r. Resource_ID r = pid \<and> Resource_DeletedAt r = None) rows")
      case None
      with Suc.prems Some show ?thesis by simp
    next
      case (Some r)
      with Suc.prems \<open>Resource_ParentID a = Some pid\<close>
      obtain xs' where rest: "cte_ancestors n rows r = Some xs'" "xs = r # xs'" by auto
      from Suc.IH [OF rest(1)] rest(2) Some \<open>Resource_ParentID a = Some pid\<close>
      show ?thesis by simp
    qed
  qed
qed

lemma cte_ancestors_bound_suffices:
  assumes "cte_ancestors n rows a = Some xs"
  shows "cte_ancestors (Suc (length rows)) rows a = Some xs"
proof -
  have "set xs \<subseteq> set rows"
    using cte_ancestors_member [OF assms] by blast
  then have "card (set xs) \<le> card (set rows)" by (simp add: card_mono)
  moreover have "card (set xs) = length xs"
    using cte_ancestors_distinct [OF assms] by (simp add: distinct_card)
  moreover have "card (set rows) \<le> length rows" by (rule card_length)
  ultimately have "Suc (length xs) \<le> Suc (length rows)" by simp
  from cte_ancestors_more_steps [OF cte_ancestors_exact_steps [OF assms] this]
  show ?thesis .
qed

lemma GetAncestors_fails_only_without_end:
  assumes "resourceRepository_GetAncestors db r = (rows, Some (Err ''recursive query does not terminate''))"
    and "db_error db = None"
  shows "\<exists>start. find (\<lambda>x. Resource_ID x = r) (resources db) = Some start \<and>
                 (\<forall>n. cte_ancestors n (resources db) start = None)"
proof -
  from assms obtain start where start: "find (\<lambda>x. Resource_ID x = r) (resources db) = Some start"
    and none: "cte_ancestors (Suc (length (resources db))) (resources db) start = None"
    by (auto simp: resourceRepository_GetAncestors_def split: option.splits)
  have "cte_ancestors n (resources db) start = None" for n
  proof (cases "cte_ancestors n (resources db) start")
    case None
    then show ?thesis .
  next
    case (Some xs)
    from cte_ancestors_bound_suffices [OF Some] none show ?thesis by simp
  qed
  with start show ?thesis by blast
qed

lemma find_by_key:
  "distinct (map f xs) \<Longrightarrow> e \<in> set xs \<Longrightarrow> find (\<lambda>r. f r = f e) xs = Some e"
  by (induction xs) (auto simp: image_iff)

lemma GetAncestors_upward_closed:
  assumes pk: "distinct (map Resource_ID (resources db))"
    and chain: "resourceRepository_GetAncestors db R = (ancestors, None)"
    and anc: "A \<in> Resource_ID ` set ancestors"
    and ancA: "resourceRepository_GetAncestors db A = (ancestorsA, errA)"
  shows "errA = None \<and> Resource_ID ` set ancestorsA \<subseteq> insert R (Resource_ID ` set ancestors)"
proof -
  let ?rows = "resources db"
  from chain have ok: "db_error db = None"
    by (auto simp: resourceRepository_GetAncestors_def split: option.splits)
  from chain anc ok obtain start full where
    full: "cte_ancestors (Suc (length ?rows)) ?rows start = Some full"
    and ancestors: "ancestors = filter (\<lambda>r. Resource_ID r \<noteq> R) full"
    by (auto simp: resourceRepository_GetAncestors_def split: option.splits)
  from anc ancestors obtain a where a: "a \<in> set full" "Resource_ID a = A" by auto
  from cte_ancestors_member [OF full a(1)] obtain m ys where
    a_row: "a \<in> set ?rows" and m: "m < Suc (length ?rows)"
    and ys: "cte_ancestors m ?rows a = Some ys" "set ys \<subseteq> set full"
    by blast
  from cte_ancestors_more_steps [OF ys(1), of "Suc (length ?rows)"] m
  have walk: "cte_ancestors (Suc (length ?rows)) ?rows a = Some ys" by simp
  from find_by_key [OF pk a_row] a(2)
  have start_A: "find (\<lambda>r. Resource_ID r = A) ?rows = Some a" by simp
  from walk ancA ok start_A have "errA = None" "ancestorsA = filter (\<lambda>r. Resource_ID r \<noteq> A) ys"
    by (auto simp: resourceRepository_GetAncestors_def)
  with ys(2) ancestors show ?thesis by auto
qed


lemma check_bindings_no_error: "snd (snd (check_bindings um p r x ctx bs)) = None"
  by (induction bs) (simp_all split: option.splits)

lemma checkResourcePermission_no_error:
  "snd (PolicyRepo_GetByResourceID (policyRepo pe) s r) = None \<Longrightarrow>
   snd (snd (checkResourcePermission pe s p r x ctx)) = None"
  by (auto simp: checkResourcePermission_def check_bindings_no_error split: prod.splits option.splits)

lemma check_hierarchy_grant_found:
  "fst (fst (check_hierarchy pe s k p x ctx rs c)) \<Longrightarrow>
   \<exists>B \<in> set rs. fst (checkResourcePermission pe s p B x ctx)"
  by (induction rs) (auto split: prod.splits option.splits bool.splits)

lemma check_hierarchy_grants:
  "B \<in> set rs \<Longrightarrow> fst (checkResourcePermission pe s p B x ctx) \<Longrightarrow>
   \<forall>r \<in> set rs. snd (snd (checkResourcePermission pe s p r x ctx)) = None \<Longrightarrow>
   \<exists>reason. fst (check_hierarchy pe s k p x ctx rs c) = (True, reason, None)"
  by (induction rs) (auto split: prod.splits option.splits bool.splits)

text \<open>
  C3, as the code has it. Let \<open>A\<close> be among the ancestors that \<^verbatim>\<open>GetAncestors\<close>
  returns for a live resource \<open>R\<close>, in a store whose resource ids are distinct (the
  primary key), and let no policy lookup fail for \<open>R\<close> and its ancestors. If the check
  of a principal and permission on \<open>A\<close> is allowed and was not answered from the cache,
  then the check on \<open>R\<close> is allowed, with no error, for any request context and any
  cache content.
\<close>

theorem grant_on_ancestor_reaches_descendant:
  assumes repo: "resourceRepo pe = resourceRepository"
    and pk: "distinct (map Resource_ID (resources db))"
    and live: "resourceRepository_GetByID db R = (Some resource, None)"
    and chain: "resourceRepository_GetAncestors db R = (ancestors, None)"
    and anc: "A \<in> Resource_ID ` set ancestors"
    and fetch: "\<forall>r \<in> set (R # map Resource_ID ancestors).
                  snd (PolicyRepo_GetByResourceID (policyRepo pe) db r) = None"
    and miss: "Get (cache pe) c (GenerateCacheKey p (uuid_String A) x) \<noteq> Some True"
    and grant: "fst (fst (CheckPermission pe p A x ctx db c))"
  shows "\<exists>reason. fst (CheckPermission pe p R x ctx' db c') = (True, reason, None)"
proof -
  obtain ancestorsA errA where ancA: "resourceRepository_GetAncestors db A = (ancestorsA, errA)"
    by (cases "resourceRepository_GetAncestors db A")
  from GetAncestors_upward_closed [OF pk chain anc ancA]
  have errA: "errA = None"
    and up: "Resource_ID ` set ancestorsA \<subseteq> insert R (Resource_ID ` set ancestors)"
    by simp_all
  from grant miss repo ancA errA
  have "fst (fst (check_hierarchy pe db (GenerateCacheKey p (uuid_String A) x) p x ctx
                    (A # map Resource_ID ancestorsA) c))"
    by (auto simp: CheckPermission_def Let_def resourceRepository_def
          simp del: check_hierarchy.simps split: prod.splits option.splits)
  from check_hierarchy_grant_found [OF this]
  obtain B where B: "B \<in> set (A # map Resource_ID ancestorsA)"
    and B_grants: "fst (checkResourcePermission pe db p B x ctx)"
    by blast
  from B up anc have B_chain: "B \<in> set (R # map Resource_ID ancestors)" by auto
  from B_grants have B_grants': "fst (checkResourcePermission pe db p B x ctx')"
    by (simp add: checkResourcePermission_context [of pe db p B x ctx' ctx])
  from fetch have no_err: "\<forall>r \<in> set (R # map Resource_ID ancestors).
      snd (snd (checkResourcePermission pe db p r x ctx')) = None"
    by (blast intro: checkResourcePermission_no_error)
  from check_hierarchy_grants [OF B_chain B_grants' no_err]
  obtain reason where walk:
    "fst (check_hierarchy pe db (GenerateCacheKey p (uuid_String R) x) p x ctx'
            (R # map Resource_ID ancestors) c') = (True, reason, None)"
    by blast
  show ?thesis
  proof (cases "Get (cache pe) c' (GenerateCacheKey p (uuid_String R) x) = Some True")
    case True
    then show ?thesis by (simp add: CheckPermission_def)
  next
    case False
    with live chain repo walk show ?thesis
      by (simp add: CheckPermission_def resourceRepository_def del: check_hierarchy.simps)
  qed
qed

theorem grant_on_ancestor_reaches_descendant_witness:
  "resourceRepo (iam_evaluator sample_service) = resourceRepository \<and>
   distinct (map Resource_ID (resources sample_db)) \<and>
   fst (resourceRepository_GetByID sample_db bucket_id) \<noteq> None \<and>
   snd (resourceRepository_GetAncestors sample_db bucket_id) = None \<and>
   org_id \<in> Resource_ID ` set (fst (resourceRepository_GetAncestors sample_db bucket_id)) \<and>
   fst (fst (CheckPermission (iam_evaluator sample_service) alice org_id storage_objects_read
               Map.empty sample_db sample_cache)) \<and>
   (\<exists>reason. fst (CheckPermission (iam_evaluator sample_service) alice bucket_id
                     storage_objects_read Map.empty sample_db sample_cache) =
                (True, reason, None))"
proof -
  have repo: "resourceRepo (iam_evaluator sample_service) = resourceRepository"
    by (simp add: sample_service_def NewIAMService_def NewPermissionEvaluator_def)
  have pk: "distinct (map Resource_ID (resources sample_db))" by code_simp
  obtain resource where live: "resourceRepository_GetByID sample_db bucket_id = (Some resource, None)"
  proof -
    have "fst (resourceRepository_GetByID sample_db bucket_id) \<noteq> None"
         "snd (resourceRepository_GetByID sample_db bucket_id) = None"
      by code_simp+
    then show ?thesis using that
      by (cases "resourceRepository_GetByID sample_db bucket_id") auto
  qed
  obtain ancestors where chain: "resourceRepository_GetAncestors sample_db bucket_id = (ancestors, None)"
  proof -
    have "snd (resourceRepository_GetAncestors sample_db bucket_id) = None" by code_simp
    then show ?thesis using that
      by (cases "resourceRepository_GetAncestors sample_db bucket_id") auto
  qed
  have anc0: "org_id \<in> Resource_ID ` set (fst (resourceRepository_GetAncestors sample_db bucket_id))"
    by code_simp
  with chain have anc: "org_id \<in> Resource_ID ` set ancestors" by simp
  have "\<forall>r \<in> set (bucket_id # map Resource_ID (fst (resourceRepository_GetAncestors sample_db bucket_id))).
          snd (PolicyRepo_GetByResourceID (policyRepo (iam_evaluator sample_service)) sample_db r) = None"
    by code_simp
  with chain have fetch: "\<forall>r \<in> set (bucket_id # map Resource_ID ancestors).
          snd (PolicyRepo_GetByResourceID (policyRepo (iam_evaluator sample_service)) sample_db r) = None"
    by simp
  have miss: "Get (cache (iam_evaluator sample_service)) sample_cache
                (GenerateCacheKey alice (uuid_String org_id) storage_objects_read) \<noteq> Some True"
    by code_simp
  have grant: "fst (fst (CheckPermission (iam_evaluator sample_service) alice org_id
                           storage_objects_read Map.empty sample_db sample_cache))"
    by code_simp
  from grant_on_ancestor_reaches_descendant [OF repo pk live chain anc fetch miss grant,
         of Map.empty sample_cache]
  have "\<exists>reason. fst (CheckPermission (iam_evaluator sample_service) alice bucket_id
                     storage_objects_read Map.empty sample_db sample_cache) =
                (True, reason, None)" .
  with repo pk live chain anc0 grant show ?thesis by simp
qed

text \<open>
  C3 as stated fails. The grant on \<^verbatim>\<open>org\<close> is in the store and in the cache; with
  the connection to the database lost, the check on \<^verbatim>\<open>org\<close> is still answered
  \<^verbatim>\<open>true\<close> from the cache, and the check on its descendant \<^verbatim>\<open>bucket\<close> is
  \<^verbatim>\<open>false\<close> with the error of the failed lookup.
\<close>

theorem grant_inheritance_counterexample:
  "org_id \<in> Resource_ID ` set (fst (resourceRepository_GetAncestors sample_db bucket_id)) \<and>
   resources (fst connection_lost) = resources sample_db \<and>
   fst (IAMService_CheckPermission sample_service alice org_id storage_objects_read Map.empty
          connection_lost) = (True, ''Permission granted (cached)'', None) \<and>
   fst (IAMService_CheckPermission sample_service alice bucket_id storage_objects_read Map.empty
          connection_lost) = (False, ''Error fetching resource'', Some (Err ''connection refused''))"
  by code_simp

section \<open>Policy update on the store\<close>


















section \<open>Binding creation on the store\<close>












end
